theory Spec2Isabelle
  imports Main "HOL-Library.Word" "HOL-Library.Sublist" "HOL-Library.Multiset"
begin

section \<open>Common types\<close>

text \<open>
  Go strings are byte sequences: \<open>string\<close> (a list of 8-bit characters) with \<open>length\<close>
  for \<open>len\<close>. Values behind a pointer are modelled by the pointee; a pointer is an
  \<open>option\<close> exactly where the source compares it with \<open>nil\<close> (or, for an \<open>error\<close>,
  where \<open>nil\<close> is the ordinary outcome). A Go map that the source ranges over is the
  list of its key/value pairs in the order the \<open>range\<close> statement visits them.
  Calls of \<open>s.Log\<close> and \<open>log.Printf\<close> have no effect on any returned value and are left out.
\<close>

text \<open>
  One error type for the package: each constructor is one \<open>errors.New\<close> /
  \<open>fmt.Errorf\<close> site of the source and carries the arguments of its format string;
  \<open>External\<close> is an error value handed back by a collaborator and passed on as it
  is. A collaborator's own error is the string that its \<open>Error()\<close> method returns.
\<close>

datatype error =
    External string
  | FailedToRebuildOldValues string
  | ExceedsMaxLength string nat
  | NameStillInUse
  | ReleaseAlreadyExists string
  | NoAvailableReleaseName
  | YAMLParseError string string
  | ApiVersionNotAvailable string string
  | UnknownHook string
  | ErrRepoOutOfDate

datatype panic = NilPointerDereference | IndexOutOfRange

type_synonym timestamp = nat

section \<open>pkg/repo: the repositories file\<close>

record Entry =
  Entry_Name :: string
  Entry_Cache :: string
  Entry_URL :: string
  Entry_CertFile :: string
  Entry_KeyFile :: string
  Entry_CAFile :: string

record RepoFile =
  APIVersion :: string
  Generated :: timestamp
  Repositories :: "Entry list"

text \<open>
  What \<open>LoadRepositoriesFile\<close> and \<open>NewRepoFile\<close> take from outside the package:
  the file system, the YAML decoder at the two types it is used at, the clock, and the
  constant \<open>APIVersionV1\<close>, declared in another file of the package.
\<close>

record repo_env =
  ReadFile :: "string \<Rightarrow> string + string"
  Unmarshal_RepoFile :: "string \<Rightarrow> string + RepoFile"
  Unmarshal_map :: "string \<Rightarrow> string + (string \<times> string) list"
  time_Now :: timestamp
  APIVersionV1 :: string

definition NewRepoFile :: "repo_env \<Rightarrow> RepoFile" where
  "NewRepoFile env =
     \<lparr>APIVersion = APIVersionV1 env, Generated = time_Now env, Repositories = []\<rparr>"

definition Add :: "RepoFile \<Rightarrow> Entry list \<Rightarrow> RepoFile" where
  "Add r re = r\<lparr>Repositories := Repositories r @ re\<rparr>"

definition legacy_entry :: "string \<times> string \<Rightarrow> Entry" where
  "legacy_entry kv =
     \<lparr>Entry_Name = fst kv, Entry_Cache = fst kv @ ''-index.yaml'', Entry_URL = snd kv,
      Entry_CertFile = [], Entry_KeyFile = [], Entry_CAFile = []\<rparr>"

definition LoadRepositoriesFile :: "repo_env \<Rightarrow> string \<Rightarrow> RepoFile option \<times> error option" where
  "LoadRepositoriesFile env path =
     (case ReadFile env path of
        Inl err \<Rightarrow> (None, Some (External err))
      | Inr b \<Rightarrow>
          (case Unmarshal_RepoFile env b of
             Inl err \<Rightarrow> (None, Some (External err))
           | Inr r \<Rightarrow>
               if APIVersion r = [] then
                 (case Unmarshal_map env b of
                    Inl err \<Rightarrow> (None, Some (External err))
                  | Inr m \<Rightarrow>
                      (Some (fold (\<lambda>kv r'. Add r' [legacy_entry kv]) m (NewRepoFile env)),
                       Some ErrRepoOutOfDate))
               else (Some r, None)))"

text \<open>The inner loop of \<open>Update\<close>: the slice after the loop, and the flag \<open>found\<close>.\<close>

fun Update_loop :: "Entry \<Rightarrow> Entry list \<Rightarrow> Entry list \<times> bool" where
  "Update_loop target [] = ([], False)"
| "Update_loop target (repo # rest) =
     (if Entry_Name repo = Entry_Name target then (target # rest, True)
      else (case Update_loop target rest of (rest', found) \<Rightarrow> (repo # rest', found)))"

definition Update_target :: "Entry \<Rightarrow> RepoFile \<Rightarrow> RepoFile" where
  "Update_target target r =
     (case Update_loop target (Repositories r) of
        (repos, found) \<Rightarrow>
          if \<not> found then Add (r\<lparr>Repositories := repos\<rparr>) [target]
          else r\<lparr>Repositories := repos\<rparr>)"

definition Update :: "RepoFile \<Rightarrow> Entry list \<Rightarrow> RepoFile" where
  "Update r re = fold Update_target re r"

fun Has_loop :: "Entry list \<Rightarrow> string \<Rightarrow> bool" where
  "Has_loop [] name = False"
| "Has_loop (rf # rest) name = (if Entry_Name rf = name then True else Has_loop rest name)"

definition Has :: "RepoFile \<Rightarrow> string \<Rightarrow> bool" where
  "Has r name = Has_loop (Repositories r) name"

section \<open>pkg/tiller: release\_server.go\<close>

definition releaseNameMaxLen :: nat where
  "releaseNameMaxLen = 53"

record Config =
  Raw :: string

text \<open>
  A chart: its default values, and everything else in it (metadata, templates,
  dependencies, files), which the functions below hand on without reading.
\<close>

record 'ch Chart =
  Chart_Values :: "Config option"
  Chart_contents :: 'ch

text \<open>
  Modelled from the spec: the status codes of a release are an enumeration of the
  protocol package, declared outside this file; the spec lists them as
  UNKNOWN, DEPLOYED, DELETED, FAILED, SUPERSEDED, PENDING\_INSTALL, PENDING\_UPGRADE and
  PENDING\_ROLLBACK.
\<close>

datatype Status_Code =
    Status_UNKNOWN
  | Status_DEPLOYED
  | Status_DELETED
  | Status_FAILED
  | Status_SUPERSEDED
  | Status_PENDING_INSTALL
  | Status_PENDING_UPGRADE
  | Status_PENDING_ROLLBACK

text \<open>
  The fields of a release and of an update request that the functions below read or
  write. \<open>Release_Status\<close> is \<open>rel.Info.Status.Code\<close>.
\<close>

record 'ch Release =
  Release_Name :: string
  Release_Status :: Status_Code
  Release_Chart :: "'ch Chart"
  Release_Config :: "Config option"
  Release_Version :: int

record 'ch UpdateReleaseRequest =
  Request_Name :: string
  Request_Chart :: "'ch Chart"
  Request_Values :: "Config option"
  ResetValues :: bool
  ReuseValues :: bool

subsection \<open>reuseValues\<close>

text \<open>
  \<open>chartutil.CoalesceValues\<close> and \<open>Values.YAML\<close> are parameters: the first merges the
  chart's defaults under a raw configuration, or fails; the second serializes the merged
  tree, or fails. The request is updated in place by the source, so the model returns
  the request after the call next to the error.
\<close>

definition reuseValues ::
  "('ch Chart \<Rightarrow> Config option \<Rightarrow> string + 'v) \<Rightarrow> ('v \<Rightarrow> string + string) \<Rightarrow>
   'ch UpdateReleaseRequest \<Rightarrow> 'ch Release \<Rightarrow> 'ch UpdateReleaseRequest \<times> error option" where
  "reuseValues CoalesceValues YAML req current =
     (if ResetValues req then (req, None)
      else if ReuseValues req then
        (case CoalesceValues (Release_Chart current) (Release_Config current) of
           Inl err \<Rightarrow> (req, Some (FailedToRebuildOldValues err))
         | Inr oldVals \<Rightarrow>
             (case YAML oldVals of
                Inl err \<Rightarrow> (req, Some (External err))
              | Inr nv \<Rightarrow>
                  (req\<lparr>Request_Chart := (Request_Chart req)\<lparr>Chart_Values := Some \<lparr>Raw = nv\<rparr>\<rparr>\<rparr>,
                   None)))
      else if (case Request_Values req of
                 None \<Rightarrow> True
               | Some v \<Rightarrow> Raw v = [] \<or> Raw v = ''{}'' @ [CHR 0x0A]) \<and>
              (case Release_Config current of
                 None \<Rightarrow> False
               | Some c \<Rightarrow> Raw c \<noteq> [] \<and> Raw c \<noteq> ''{}'' @ [CHR 0x0A])
      then (req\<lparr>Request_Values := Release_Config current\<rparr>, None)
      else (req, None))"

subsection \<open>uniqName\<close>

text \<open>
  What \<open>uniqName\<close> takes from outside: the two lookups of the release storage, each
  returning Go's pair of a value and an error (\<open>None\<close> is the \<open>nil\<close> error); the name
  that \<open>moniker.New().NameSep("-")\<close> produces in the \<open>i\<close>-th round of the loop; and
  \<open>relutil.Reverse(h, relutil.SortByRevision)\<close>, which reorders the history in place.
\<close>

record 'ch name_env =
  Releases_History :: "string \<Rightarrow> 'ch Release list \<times> string option"
  Releases_Get :: "string \<Rightarrow> int \<Rightarrow> 'ch Release option \<times> string option"
  moniker_NameSep :: "nat \<Rightarrow> string"
  Reverse_SortByRevision :: "'ch Release list \<Rightarrow> 'ch Release list"

text \<open>\<open>strings.Contains\<close>\<close>

fun strings_Contains :: "string \<Rightarrow> string \<Rightarrow> bool" where
  "strings_Contains [] substr = (substr = [])"
| "strings_Contains (c # s) substr = (prefix substr (c # s) \<or> strings_Contains s substr)"

definition maxTries :: nat where
  "maxTries = 5"

text \<open>
  The loop that generates a name. \<open>err.Error()\<close> is called on whatever error the lookup
  returned: on the \<open>nil\<close> error that is a nil pointer dereference.
\<close>

function uniqName_loop :: "'ch name_env \<Rightarrow> nat \<Rightarrow> panic + string \<times> error option" where
  "uniqName_loop env i =
     (if i < maxTries then
        (let name = moniker_NameSep env i;
             name = (if length name > releaseNameMaxLen then take releaseNameMaxLen name
                     else name)
         in case snd (Releases_Get env name 1) of
              None \<Rightarrow> Inl NilPointerDereference
            | Some err \<Rightarrow>
                if strings_Contains err ''not found'' then Inr (name, None)
                else uniqName_loop env (Suc i))
      else Inr (''ERROR'', Some NoAvailableReleaseName))"
  by pat_completeness auto
termination
  by (relation "measure (\<lambda>(env, i). maxTries - i)") auto

definition uniqName ::
  "'ch name_env \<Rightarrow> string \<Rightarrow> bool \<Rightarrow> panic + string \<times> error option" where
  "uniqName env start reuse =
     (if start \<noteq> [] then
        if length start > releaseNameMaxLen then
          Inr ([], Some (ExceedsMaxLength start releaseNameMaxLen))
        else
          (case Releases_History env start of
             (h, err) \<Rightarrow>
               if err \<noteq> None \<or> length h < 1 then Inr (start, None)
               else
                 (case Reverse_SortByRevision env h of
                    [] \<Rightarrow> Inl IndexOutOfRange
                  | rel # _ \<Rightarrow>
                      let st = Release_Status rel in
                      if reuse \<and> (st = Status_DELETED \<or> st = Status_FAILED) then
                        Inr (start, None)
                      else if reuse then Inr ([], Some NameStillInUse)
                      else Inr ([], Some (ReleaseAlreadyExists start))))
      else uniqName_loop env 0)"

text \<open>
  The spec's notion of an empty or blank configuration, in its words: unset,
  zero-length, or exactly the canonical empty-object serialization (an opening and a
  closing brace followed by a line feed).
\<close>

definition blank_configuration :: "Config option \<Rightarrow> bool" where
  "blank_configuration c =
     (case c of
        None \<Rightarrow> True
      | Some v \<Rightarrow> length (Raw v) = 0 \<or> Raw v = [CHR ''{'', CHR ''}'', CHR 0x0A])"

text \<open>
  Modelled from the spec: \<open>relutil.Reverse\<close> and \<open>relutil.SortByRevision\<close> are declared
  in another package; the spec has the allocator inspect the most recent revision by
  revision number, descending. A reordering \<open>h'\<close> of the history \<open>h\<close> meets that when
  it holds the same releases and its revision numbers never increase.
\<close>

definition by_revision_descending :: "'ch Release list \<Rightarrow> 'ch Release list \<Rightarrow> bool" where
  "by_revision_descending h h' =
     (mset h' = mset h \<and> sorted_wrt (\<lambda>a b. Release_Version b \<le> Release_Version a) h')"

section \<open>pkg/tiller: hooks.go\<close>

datatype Hook_Event =
    Hook_UNKNOWN
  | Hook_PRE_INSTALL
  | Hook_POST_INSTALL
  | Hook_PRE_DELETE
  | Hook_POST_DELETE
  | Hook_PRE_UPGRADE
  | Hook_POST_UPGRADE
  | Hook_PRE_ROLLBACK
  | Hook_POST_ROLLBACK
  | Hook_RELEASE_TEST_SUCCESS
  | Hook_RELEASE_TEST_FAILURE

text \<open>
  Modelled from the spec: the keys of the table \<open>events\<close> are string constants of the
  package \<open>hooks\<close>, declared outside this file; the spec gives the ten event names
  \<open>pre-install\<close>, \<open>post-install\<close>, \<open>pre-delete\<close>, \<open>post-delete\<close>, \<open>pre-upgrade\<close>,
  \<open>post-upgrade\<close>, \<open>pre-rollback\<close>, \<open>post-rollback\<close>, \<open>release-test-success\<close> and
  \<open>release-test-failure\<close>. The table pairs each with the event code of the same name.
\<close>

definition events :: "string \<rightharpoonup> Hook_Event" where
  "events = map_of
     [(''pre-install'', Hook_PRE_INSTALL),
      (''post-install'', Hook_POST_INSTALL),
      (''pre-delete'', Hook_PRE_DELETE),
      (''post-delete'', Hook_POST_DELETE),
      (''pre-upgrade'', Hook_PRE_UPGRADE),
      (''post-upgrade'', Hook_POST_UPGRADE),
      (''pre-rollback'', Hook_PRE_ROLLBACK),
      (''post-rollback'', Hook_POST_ROLLBACK),
      (''release-test-success'', Hook_RELEASE_TEST_SUCCESS),
      (''release-test-failure'', Hook_RELEASE_TEST_FAILURE)]"

text \<open>
  \<open>util.SimpleHead\<close>: the generic header of a resource. \<open>Metadata\<close> is a pointer that
  the source tests against \<open>nil\<close>. The annotation map is the list of its key/value
  pairs, read with \<open>map_of\<close>; a \<open>nil\<close> map and an empty one behave alike in every use
  below (\<open>len\<close> is 0 and every lookup misses), so both are the empty list.
\<close>

record SimpleHead_Metadata =
  Metadata_Name :: string
  Annotations :: "(string \<times> string) list"

record SimpleHead =
  Version :: string
  Kind :: string
  Metadata :: "SimpleHead_Metadata option"

record Hook =
  Hook_Name :: string
  Hook_Kind :: string
  Hook_Path :: string
  Hook_Manifest :: string
  Hook_Events :: "Hook_Event list"
  Hook_LastRun :: "timestamp option"
  Hook_Weight :: "32 word"

record manifest =
  manifest_name :: string
  manifest_content :: string
  manifest_head :: SimpleHead

record result =
  result_hooks :: "Hook list"
  result_generic :: "manifest list"

text \<open>
  \<open>chartutil.VersionSet\<close> is a set of API version strings; \<open>Has\<close> is membership.
  \<open>entries\<close> is the map that \<open>util.SplitManifests\<close> returns, as the list of its
  key/document pairs in the order the loop of \<open>sort\<close> visits them.
\<close>

record manifestFile =
  mf_entries :: "(string \<times> string) list"
  mf_path :: string
  mf_apis :: "string set"

text \<open>
  What this file takes from outside: the YAML decoder at type \<open>SimpleHead\<close>
  (\<open>Inl\<close> is the message of its error); \<open>strconv.Atoi\<close> (\<open>None\<close> when it returns an
  error); \<open>strings.TrimSpace\<close> and \<open>strings.ToLower\<close>, which follow Unicode; the two
  annotation keys, constants of the package \<open>hooks\<close>; \<open>util.SplitManifests\<close>; and
  \<open>sortByKind\<close> with its sort order.
\<close>

record 'o hooks_env =
  yaml_Unmarshal :: "string \<Rightarrow> string + SimpleHead"
  strconv_Atoi :: "string \<Rightarrow> int option"
  strings_TrimSpace :: "string \<Rightarrow> string"
  strings_ToLower :: "string \<Rightarrow> string"
  HookAnno :: string
  HookWeightAnno :: string
  SplitManifests :: "string \<Rightarrow> (string \<times> string) list"
  sortByKind :: "manifest list \<Rightarrow> 'o \<Rightarrow> manifest list"

text \<open>\<open>strings.Split(s, ",")\<close>: the pieces between the commas, at least one.\<close>

fun strings_Split_comma :: "string \<Rightarrow> string list" where
  "strings_Split_comma [] = [[]]"
| "strings_Split_comma (c # cs) =
     (if c = CHR '','' then [] # strings_Split_comma cs
      else (case strings_Split_comma cs of
              [] \<Rightarrow> [[c]]
            | w # ws \<Rightarrow> (c # w) # ws))"

text \<open>
  \<open>path.Base\<close>: the last element of a slash-separated path, after removing trailing
  slashes; \<open>.\<close> for the empty path and \<open>/\<close> for a path of slashes only.
\<close>

definition path_Base :: "string \<Rightarrow> string" where
  "path_Base path =
     (if path = [] then ''.''
      else
        (let stripped = rev (dropWhile (\<lambda>c. c = CHR ''/'') (rev path));
             last_elem = rev (takeWhile (\<lambda>c. c \<noteq> CHR ''/'') (rev stripped))
         in if last_elem = [] then ''/'' else last_elem))"

definition hasAnyAnnotation :: "SimpleHead \<Rightarrow> bool" where
  "hasAnyAnnotation entry =
     (case Metadata entry of
        None \<Rightarrow> False
      | Some md \<Rightarrow> if length (Annotations md) = 0 then False else True)"

text \<open>
  \<open>calculateHookWeight\<close> reads \<open>entry.Metadata.Annotations\<close>; its only caller has
  established that the metadata is there, and the model takes the metadata itself.
  A missing key reads as the empty string, a string that \<open>Atoi\<close> rejects gives 0, and
  the conversion to \<open>int32\<close> keeps the low 32 bits.
\<close>

definition calculateHookWeight :: "'o hooks_env \<Rightarrow> SimpleHead_Metadata \<Rightarrow> 32 word" where
  "calculateHookWeight env md =
     (let hws = (case map_of (Annotations md) (HookWeightAnno env) of None \<Rightarrow> [] | Some s \<Rightarrow> s);
          hw = (case strconv_Atoi env hws of None \<Rightarrow> 0 | Some n \<Rightarrow> n)
      in word_of_int hw)"

text \<open>
  The loop over the comma-separated hook types: the hook with the events appended so
  far, and the flag \<open>isKnownHook\<close>.
\<close>

fun hookTypes_loop :: "'o hooks_env \<Rightarrow> string list \<Rightarrow> Hook \<times> bool \<Rightarrow> Hook \<times> bool" where
  "hookTypes_loop env [] hk = hk"
| "hookTypes_loop env (hookType # rest) (h, isKnownHook) =
     (let hookType' = strings_ToLower env (strings_TrimSpace env hookType)
      in case events hookType' of
           Some e \<Rightarrow> hookTypes_loop env rest (h\<lparr>Hook_Events := Hook_Events h @ [e]\<rparr>, True)
         | None \<Rightarrow> hookTypes_loop env rest (h, isKnownHook))"

text \<open>
  The body of the loop of \<open>sort\<close> for one document \<open>m\<close>, as a function of what it
  reads of the file (\<open>file.path\<close> and \<open>file.apis\<close>): the error that ends the loop,
  or the result with what the document added. After \<open>hasAnyAnnotation\<close> the metadata is
  present (\<open>Some\<close>); the first case of the inner distinction repeats that test.
\<close>

definition sort_entry ::
  "'o hooks_env \<Rightarrow> string \<Rightarrow> string set \<Rightarrow> result \<Rightarrow> string \<Rightarrow> error + result" where
  "sort_entry env path apis res m =
     (case yaml_Unmarshal env m of
        Inl err \<Rightarrow> Inl (YAMLParseError path err)
      | Inr entry \<Rightarrow>
          if Version entry \<noteq> [] \<and> Version entry \<notin> apis then
            Inl (ApiVersionNotAvailable (Version entry) path)
          else
            (let generic_manifest =
                   \<lparr>manifest_name = path, manifest_content = m, manifest_head = entry\<rparr>
             in if \<not> hasAnyAnnotation entry then
                  Inr (res\<lparr>result_generic := result_generic res @ [generic_manifest]\<rparr>)
                else
                  (case Metadata entry of
                     None \<Rightarrow> Inr (res\<lparr>result_generic := result_generic res @ [generic_manifest]\<rparr>)
                   | Some md \<Rightarrow>
                       (case map_of (Annotations md) (HookAnno env) of
                          None \<Rightarrow>
                            Inr (res\<lparr>result_generic := result_generic res @ [generic_manifest]\<rparr>)
                        | Some hookTypes \<Rightarrow>
                            (let hw = calculateHookWeight env md;
                                 h = \<lparr>Hook_Name = Metadata_Name md, Hook_Kind = Kind entry,
                                      Hook_Path = path, Hook_Manifest = m,
                                      Hook_Events = [], Hook_LastRun = None, Hook_Weight = hw\<rparr>
                             in case hookTypes_loop env (strings_Split_comma hookTypes) (h, False) of
                                  (h', isKnownHook) \<Rightarrow>
                                    if \<not> isKnownHook then Inr res
                                    else Inr (res\<lparr>result_hooks := result_hooks res @ [h']\<rparr>))))))"

text \<open>
  The loop of \<open>sort\<close> over the entries of the file. The result is updated in place, so
  when an error ends the loop the result holds what the earlier documents added.
\<close>

fun sort_loop ::
  "'o hooks_env \<Rightarrow> manifestFile \<Rightarrow> (string \<times> string) list \<Rightarrow> result \<Rightarrow> result \<times> error option" where
  "sort_loop env file [] res = (res, None)"
| "sort_loop env file (km # rest) res =
     (case sort_entry env (mf_path file) (mf_apis file) res (snd km) of
        Inl e \<Rightarrow> (res, Some e)
      | Inr res' \<Rightarrow> sort_loop env file rest res')"

definition manifestFile_sort ::
  "'o hooks_env \<Rightarrow> manifestFile \<Rightarrow> result \<Rightarrow> result \<times> error option" where
  "manifestFile_sort env file res = sort_loop env file (mf_entries file) res"

text \<open>
  The loop of \<open>sortManifests\<close> over the files, the map \<open>files\<close> being the list of its
  path/content pairs in the order the loop visits them.
\<close>

fun sortManifests_loop ::
  "'o hooks_env \<Rightarrow> string set \<Rightarrow> (string \<times> string) list \<Rightarrow> result \<Rightarrow> result \<times> error option" where
  "sortManifests_loop env apis [] res = (res, None)"
| "sortManifests_loop env apis (fc # rest) res =
     (if prefix ''_'' (path_Base (fst fc)) then sortManifests_loop env apis rest res
      else if length (strings_TrimSpace env (snd fc)) = 0 then sortManifests_loop env apis rest res
      else
        (case manifestFile_sort env
                \<lparr>mf_entries = SplitManifests env (snd fc), mf_path = fst fc, mf_apis = apis\<rparr> res of
           (res', Some err) \<Rightarrow> (res', Some err)
         | (res', None) \<Rightarrow> sortManifests_loop env apis rest res'))"

definition sortManifests ::
  "'o hooks_env \<Rightarrow> (string \<times> string) list \<Rightarrow> string set \<Rightarrow> 'o \<Rightarrow>
   Hook list \<times> manifest list \<times> error option" where
  "sortManifests env files apis order =
     (case sortManifests_loop env apis files \<lparr>result_hooks = [], result_generic = []\<rparr> of
        (res, Some err) \<Rightarrow> (result_hooks res, result_generic res, Some err)
      | (res, None) \<Rightarrow> (result_hooks res, sortByKind env (result_generic res) order, None))"

text \<open>
  The loop of \<open>sortManifests\<close> with that of \<open>sort\<close> inside, seen from the spec: the
  documents of a file set are the entries of the files that are neither partials (base
  name starting with an underscore) nor blank, each with the path of its file, in the
  order in which they are reached.
\<close>

definition documents :: "'o hooks_env \<Rightarrow> (string \<times> string) list \<Rightarrow> (string \<times> string) list" where
  "documents env files =
     concat (map (\<lambda>fc. map (\<lambda>km. (fst fc, snd km)) (SplitManifests env (snd fc)))
               (filter (\<lambda>fc. \<not> prefix ''_'' (path_Base (fst fc)) \<and>
                             length (strings_TrimSpace env (snd fc)) \<noteq> 0) files))"

text \<open>
  The error of one document in the spec's words: a header that does not parse is an
  error carrying the path of the file; an API version that is present, not empty and
  not in the capability set is an error naming that version and the file.
\<close>

definition document_error :: "'o hooks_env \<Rightarrow> string set \<Rightarrow> string \<times> string \<Rightarrow> error option" where
  "document_error env apis pd =
     (case yaml_Unmarshal env (snd pd) of
        Inl msg \<Rightarrow> Some (YAMLParseError (fst pd) msg)
      | Inr entry \<Rightarrow>
          if Version entry \<noteq> [] \<and> Version entry \<notin> apis
          then Some (ApiVersionNotAvailable (Version entry) (fst pd)) else None)"

text \<open>
  Classification of a list of documents, each with the path of its file, by the body of
  the loop of \<open>sort\<close>, stopping at the first error.
\<close>

fun classify_documents ::
  "'o hooks_env \<Rightarrow> string set \<Rightarrow> (string \<times> string) list \<Rightarrow> result \<Rightarrow> result \<times> error option" where
  "classify_documents env apis [] res = (res, None)"
| "classify_documents env apis (pd # rest) res =
     (case sort_entry env (fst pd) apis res (snd pd) of
        Inl e \<Rightarrow> (res, Some e)
      | Inr res' \<Rightarrow> classify_documents env apis rest res')"

section \<open>pkg/tiller: execHook\<close>

text \<open>
  The hooks are held by pointer and \<open>execHook\<close> stamps them in place, so the state has
  the hook objects as a list and a pointer is an index into it. The cluster is an
  abstract state \<open>'w\<close> that the calls of the client transform; the calls made are
  recorded next to it.
\<close>

datatype kube_call =
    Create_call string string int
  | WatchUntilReady_call string string int

record 'w exec_state =
  st_hooks :: "Hook list"
  st_cluster :: 'w
  st_calls :: "kube_call list"

text \<open>
  What \<open>execHook\<close> takes from outside: the two calls of the cluster client (namespace,
  manifest, timeout and the flag \<open>shouldWait\<close>; \<open>None\<close> is the \<open>nil\<close> error),
  \<open>timeconv.Now\<close>, and \<open>sortByHookWeight\<close>, which reorders a slice of hook pointers
  and is given the hook objects to compare them.
\<close>

record 'w kube_env =
  KubeClient_Create :: "'w \<Rightarrow> string \<Rightarrow> string \<Rightarrow> int \<Rightarrow> bool \<Rightarrow> 'w \<times> string option"
  KubeClient_WatchUntilReady :: "'w \<Rightarrow> string \<Rightarrow> string \<Rightarrow> int \<Rightarrow> bool \<Rightarrow> 'w \<times> string option"
  timeconv_Now :: "'w \<Rightarrow> timestamp"
  sortByHookWeight :: "Hook list \<Rightarrow> nat list \<Rightarrow> nat list"

text \<open>The hooks to execute: one pointer for every event of a hook that equals the code.\<close>

definition executingHooks :: "Hook list \<Rightarrow> Hook_Event \<Rightarrow> nat list" where
  "executingHooks hs code =
     concat (map (\<lambda>i. map (\<lambda>e. i) (filter (\<lambda>e. e = code) (Hook_Events (hs ! i))))
               [0 ..< length hs])"

fun execHook_loop ::
  "'w kube_env \<Rightarrow> string \<Rightarrow> int \<Rightarrow> nat list \<Rightarrow> 'w exec_state \<Rightarrow> 'w exec_state \<times> error option" where
  "execHook_loop env namespace timeout [] st = (st, None)"
| "execHook_loop env namespace timeout (h # rest) st =
     (let b = Hook_Manifest (st_hooks st ! h) in
      case KubeClient_Create env (st_cluster st) namespace b timeout False of
        (w1, err1) \<Rightarrow>
          (let st1 = st\<lparr>st_cluster := w1,
                        st_calls := st_calls st @ [Create_call namespace b timeout]\<rparr>
           in case err1 of
                Some err \<Rightarrow> (st1, Some (External err))
              | None \<Rightarrow>
                  (case KubeClient_WatchUntilReady env w1 namespace b timeout False of
                     (w2, err2) \<Rightarrow>
                       (let st2 = st1\<lparr>st_cluster := w2,
                                      st_calls := st_calls st1 @
                                        [WatchUntilReady_call namespace b timeout]\<rparr>
                        in case err2 of
                             Some err \<Rightarrow> (st2, Some (External err))
                           | None \<Rightarrow>
                               execHook_loop env namespace timeout rest
                                 (st2\<lparr>st_hooks := (st_hooks st2)
                                    [h := (st_hooks st2 ! h)
                                       \<lparr>Hook_LastRun := Some (timeconv_Now env w2)\<rparr>]\<rparr>)))))"

definition execHook ::
  "'w kube_env \<Rightarrow> 'w exec_state \<Rightarrow> string \<Rightarrow> string \<Rightarrow> string \<Rightarrow> int \<Rightarrow>
   'w exec_state \<times> error option" where
  "execHook env st name namespace hook timeout =
     (case events hook of
        None \<Rightarrow> (st, Some (UnknownHook hook))
      | Some code \<Rightarrow>
          execHook_loop env namespace timeout
            (sortByHookWeight env (st_hooks st) (executingHooks (st_hooks st) code)) st)"

section \<open>Concrete inputs\<close>

text \<open>Closed terms at which the theorems below are instantiated and evaluated.\<close>

definition example_entry :: "string \<Rightarrow> string \<Rightarrow> Entry" where
  "example_entry n u =
     \<lparr>Entry_Name = n, Entry_Cache = [], Entry_URL = u,
      Entry_CertFile = [], Entry_KeyFile = [], Entry_CAFile = []\<rparr>"

definition example_repofile :: RepoFile where
  "example_repofile =
     \<lparr>APIVersion = ''v1'', Generated = 0,
      Repositories = [example_entry ''stable'' ''https://a'', example_entry ''local'' ''http://b'',
                      example_entry ''local'' ''http://c'']\<rparr>"

text \<open>
  A file system with three files: \<open>old\<close> holds a legacy name-to-URL mapping,
  \<open>new\<close> a repositories file with an API version, and \<open>corrupt\<close> a repositories
  file without an API version, whose content is not a mapping of names to URLs.
\<close>

definition example_repo_env :: repo_env where
  "example_repo_env =
     \<lparr>ReadFile = (\<lambda>p. if p = ''old'' then Inr ''local: http://b''
                      else if p = ''new'' then Inr ''apiVersion: v1''
                      else if p = ''corrupt'' then Inr ''repositories: []''
                      else Inl ''no such file''),
      Unmarshal_RepoFile = (\<lambda>b. if b = ''apiVersion: v1''
                      then Inr \<lparr>APIVersion = ''v1'', Generated = 7, Repositories = []\<rparr>
                      else Inr \<lparr>APIVersion = [], Generated = 0, Repositories = []\<rparr>),
      Unmarshal_map = (\<lambda>b. if b = ''local: http://b'' then Inr [(''local'', ''http://b'')]
                      else Inl ''cannot unmarshal''),
      time_Now = 42,
      APIVersionV1 = ''v1''\<rparr>"

text \<open>
  An upgrade of the release \<open>rel\<close>, whose stored configuration is \<open>name: value\<close>,
  by a request that carries overrides of its own. The stand-in for coalescing returns
  the stored configuration (the chart's defaults when there is none) and rejects the
  stored configuration \<open>bad\<close>; the stand-in for serialization is the identity, except
  that it fails on \<open>cyclic\<close>.
\<close>

definition example_CoalesceValues :: "unit Chart \<Rightarrow> Config option \<Rightarrow> string + string" where
  "example_CoalesceValues ch cfg =
     (case cfg of
        None \<Rightarrow> Inr (case Chart_Values ch of None \<Rightarrow> [] | Some d \<Rightarrow> Raw d)
      | Some c \<Rightarrow> if Raw c = ''bad'' then Inl ''cannot parse'' else Inr (Raw c))"

definition example_YAML :: "string \<Rightarrow> string + string" where
  "example_YAML v = (if v = ''cyclic'' then Inl ''cannot marshal'' else Inr v)"

definition example_release :: "string \<Rightarrow> Status_Code \<Rightarrow> int \<Rightarrow> unit Release" where
  "example_release cfg st v =
     \<lparr>Release_Name = ''rel'', Release_Status = st,
      Release_Chart = \<lparr>Chart_Values = None, Chart_contents = ()\<rparr>,
      Release_Config = Some \<lparr>Raw = cfg\<rparr>, Release_Version = v\<rparr>"

definition example_request :: "Config option \<Rightarrow> bool \<Rightarrow> unit UpdateReleaseRequest" where
  "example_request vals reuse =
     \<lparr>Request_Name = ''rel'',
      Request_Chart = \<lparr>Chart_Values = Some \<lparr>Raw = ''foo: bar''\<rparr>, Chart_contents = ()\<rparr>,
      Request_Values = vals, ResetValues = False, ReuseValues = reuse\<rparr>"

text \<open>
  A release storage with three names: \<open>live\<close> has a superseded first and a deployed
  second revision, \<open>gone\<close> a superseded first and a deleted second revision, and
  \<open>taken-name\<close> a deployed first revision. Every generated name is \<open>taken-name\<close>.
\<close>

definition example_name_env :: "unit name_env" where
  "example_name_env =
     \<lparr>Releases_History = (\<lambda>n.
        if n = ''live'' then
          ([example_release [] Status_SUPERSEDED 1, example_release [] Status_DEPLOYED 2], None)
        else if n = ''gone'' then
          ([example_release [] Status_SUPERSEDED 1, example_release [] Status_DELETED 2], None)
        else ([], Some ''release: not found'')),
      Releases_Get = (\<lambda>n v.
        if n = ''taken-name'' \<and> v = 1 then (Some (example_release [] Status_DEPLOYED 1), None)
        else (None, Some ''release: not found'')),
      moniker_NameSep = (\<lambda>i. ''taken-name''),
      Reverse_SortByRevision = (\<lambda>h. rev (sort_key Release_Version h))\<rparr>"

text \<open>
  Stand-ins for the collaborators of the classifier. The decoder knows five documents:
  a config map without annotations, a job bound to \<open>pre-install\<close> and to an event that
  does not exist, with weight 5, a job bound only to an event that does not exist, a
  config map with some other annotation, and a deployment of an API version that the
  cluster lacks; any other text does not parse. Trimming removes blanks at both ends,
  lower-casing maps the letters A to Z, and every file holds one document.
\<close>

definition example_head ::
  "string \<Rightarrow> string \<Rightarrow> string \<Rightarrow> (string \<times> string) list \<Rightarrow> SimpleHead" where
  "example_head v k n anns =
     \<lparr>Version = v, Kind = k, Metadata = Some \<lparr>Metadata_Name = n, Annotations = anns\<rparr>\<rparr>"

definition example_Unmarshal :: "string \<Rightarrow> string + SimpleHead" where
  "example_Unmarshal doc =
     (if doc = ''configmap'' then
        Inr \<lparr>Version = ''v1'', Kind = ''ConfigMap'', Metadata = None\<rparr>
      else if doc = ''job: pre-install, bogus-event'' then
        Inr (example_head ''batch/v1'' ''Job'' ''init''
               [(''helm.sh/hook'', ''Pre-Install, bogus-event''),
                (''helm.sh/hook-weight'', ''5'')])
      else if doc = ''job: no-such-hook'' then
        Inr (example_head ''batch/v1'' ''Job'' ''lost'' [(''helm.sh/hook'', ''no-such-hook'')])
      else if doc = ''configmap: annotated'' then
        Inr (example_head ''v1'' ''ConfigMap'' ''cm'' [(''owner'', ''team'')])
      else if doc = ''deployment'' then
        Inr (example_head ''apps/v9'' ''Deployment'' ''web'' [])
      else Inl ''cannot unmarshal'')"

definition example_ToLower :: "string \<Rightarrow> string" where
  "example_ToLower s =
     map (\<lambda>c. case map_of (zip ''ABCDEFGHIJKLMNOPQRSTUVWXYZ'' ''abcdefghijklmnopqrstuvwxyz'') c of
                 None \<Rightarrow> c
               | Some l \<Rightarrow> l) s"

definition example_TrimSpace :: "string \<Rightarrow> string" where
  "example_TrimSpace s =
     rev (dropWhile (\<lambda>c. c = CHR '' '') (rev (dropWhile (\<lambda>c. c = CHR '' '') s)))"

definition example_hooks_env :: "unit hooks_env" where
  "example_hooks_env =
     \<lparr>yaml_Unmarshal = example_Unmarshal,
      strconv_Atoi = (\<lambda>s. if s = ''5'' then Some 5 else None),
      strings_TrimSpace = example_TrimSpace,
      strings_ToLower = example_ToLower,
      HookAnno = ''helm.sh/hook'',
      HookWeightAnno = ''helm.sh/hook-weight'',
      SplitManifests = (\<lambda>c. [(''manifest-0'', c)]),
      sortByKind = (\<lambda>ms order. ms)\<rparr>"

definition example_file :: "string \<Rightarrow> manifestFile" where
  "example_file p = \<lparr>mf_entries = [], mf_path = p, mf_apis = {''v1'', ''batch/v1''}\<rparr>"

definition empty_result :: result where
  "empty_result = \<lparr>result_hooks = [], result_generic = []\<rparr>"

text \<open>
  A cluster that counts the calls made to it and whose clock reads that count; creation
  fails for the manifest \<open>bad\<close>. One hook, bound to \<open>pre-install\<close>, never run.
\<close>

definition example_kube_env :: "nat kube_env" where
  "example_kube_env =
     \<lparr>KubeClient_Create = (\<lambda>w ns b t wait. (Suc w, if b = ''bad'' then Some ''create failed'' else None)),
      KubeClient_WatchUntilReady = (\<lambda>w ns b t wait. (Suc w, None)),
      timeconv_Now = (\<lambda>w. w),
      sortByHookWeight = (\<lambda>hs ptrs. ptrs)\<rparr>"

definition example_exec_state :: "nat exec_state" where
  "example_exec_state =
     \<lparr>st_hooks = [\<lparr>Hook_Name = ''init'', Hook_Kind = ''Job'', Hook_Path = ''t/a.yaml'',
                   Hook_Manifest = ''job'', Hook_Events = [Hook_PRE_INSTALL],
                   Hook_LastRun = None, Hook_Weight = 0\<rparr>],
      st_cluster = 0, st_calls = []\<rparr>"

section \<open>Properties of the repositories file\<close>

lemma Has_loop_iff: "Has_loop xs n \<longleftrightarrow> (\<exists>x \<in> set xs. Entry_Name x = n)"
  by (induction xs) auto

lemma Update_loop_absent:
  "\<forall>x \<in> set xs. Entry_Name x \<noteq> Entry_Name t \<Longrightarrow> Update_loop t xs = (xs, False)"
  by (induction xs) auto

lemma Update_loop_present:
  "\<exists>x \<in> set xs. Entry_Name x = Entry_Name t \<Longrightarrow>
   \<exists>j < length xs. Entry_Name (xs ! j) = Entry_Name t \<and>
     (\<forall>i < j. Entry_Name (xs ! i) \<noteq> Entry_Name t) \<and>
     Update_loop t xs = (xs[j := t], True)"
proof (induction xs)
  case Nil
  then show ?case by simp
next
  case (Cons a xs)
  show ?case
  proof (cases "Entry_Name a = Entry_Name t")
    case True
    then have "Entry_Name ((a # xs) ! 0) = Entry_Name t \<and>
      (\<forall>i < 0. Entry_Name ((a # xs) ! i) \<noteq> Entry_Name t) \<and>
      Update_loop t (a # xs) = ((a # xs)[0 := t], True)"
      by simp
    then show ?thesis by blast
  next
    case False
    with Cons.prems have "\<exists>x \<in> set xs. Entry_Name x = Entry_Name t" by auto
    from Cons.IH [OF this] obtain j where j: "j < length xs"
      "Entry_Name (xs ! j) = Entry_Name t"
      "\<forall>i < j. Entry_Name (xs ! i) \<noteq> Entry_Name t"
      "Update_loop t xs = (xs[j := t], True)"
      by blast
    have "\<forall>i < Suc j. Entry_Name ((a # xs) ! i) \<noteq> Entry_Name t"
      using False j(3) by (auto simp: nth_Cons split: nat.splits)
    moreover have "Update_loop t (a # xs) = ((a # xs)[Suc j := t], True)"
      using False j(4) by simp
    ultimately have "Suc j < length (a # xs) \<and>
      Entry_Name ((a # xs) ! Suc j) = Entry_Name t \<and>
      (\<forall>i < Suc j. Entry_Name ((a # xs) ! i) \<noteq> Entry_Name t) \<and>
      Update_loop t (a # xs) = ((a # xs)[Suc j := t], True)"
      using j(1,2) by simp
    then show ?thesis by blast
  qed
qed

lemma Update_loop_filter:
  "filter (\<lambda>x. Entry_Name x \<noteq> Entry_Name t) (fst (Update_loop t xs)) =
   filter (\<lambda>x. Entry_Name x \<noteq> Entry_Name t) xs"
  by (induction xs) (auto split: prod.splits)

lemma Update_single:
  "Repositories (Update r [e]) =
     (case Update_loop e (Repositories r) of
        (repos, found) \<Rightarrow> if found then repos else repos @ [e])"
  by (simp add: Update_def Update_target_def Add_def split: prod.splits)

text \<open>
  C10. \<open>Update\<close> with one entry \<open>e\<close>: when an entry of that name exists, the first such
  entry (at the least index \<open>j\<close> with that name) is replaced by \<open>e\<close> and nothing else
  changes; when none exists, \<open>e\<close> is appended. Afterwards \<open>Has\<close> finds the name of \<open>e\<close>,
  and the entries with any other name are the same ones in the same order.
\<close>

theorem Update_replaces_first_or_appends:
  "(Has r (Entry_Name e) \<longrightarrow>
      (\<exists>j < length (Repositories r).
         Entry_Name (Repositories r ! j) = Entry_Name e \<and>
         (\<forall>i < j. Entry_Name (Repositories r ! i) \<noteq> Entry_Name e) \<and>
         Repositories (Update r [e]) = (Repositories r)[j := e])) \<and>
   (\<not> Has r (Entry_Name e) \<longrightarrow> Repositories (Update r [e]) = Repositories r @ [e]) \<and>
   Has (Update r [e]) (Entry_Name e) \<and>
   filter (\<lambda>x. Entry_Name x \<noteq> Entry_Name e) (Repositories (Update r [e])) =
     filter (\<lambda>x. Entry_Name x \<noteq> Entry_Name e) (Repositories r)"
proof (cases "\<exists>x \<in> set (Repositories r). Entry_Name x = Entry_Name e")
  case True
  then have has: "Has r (Entry_Name e)"
    by (simp add: Has_def Has_loop_iff)
  from Update_loop_present [OF True] obtain j where j: "j < length (Repositories r)"
    "Entry_Name (Repositories r ! j) = Entry_Name e"
    "\<forall>i < j. Entry_Name (Repositories r ! i) \<noteq> Entry_Name e"
    "Update_loop e (Repositories r) = ((Repositories r)[j := e], True)"
    by blast
  have upd: "Repositories (Update r [e]) = (Repositories r)[j := e]"
    using j(4) by (simp add: Update_single)
  have "e \<in> set ((Repositories r)[j := e])"
    using j(1) by (simp add: set_update_memI)
  then have has': "Has (Update r [e]) (Entry_Name e)"
    unfolding Has_def Has_loop_iff upd by blast
  have "filter (\<lambda>x. Entry_Name x \<noteq> Entry_Name e) (Repositories (Update r [e])) =
     filter (\<lambda>x. Entry_Name x \<noteq> Entry_Name e) (Repositories r)"
    using Update_loop_filter [of e "Repositories r"] j(4) upd by simp
  with has has' upd j(1,2,3) show ?thesis by blast
next
  case False
  then have nhas: "\<not> Has r (Entry_Name e)"
    by (simp add: Has_def Has_loop_iff)
  from False have "Update_loop e (Repositories r) = (Repositories r, False)"
    by (simp add: Update_loop_absent)
  then have upd: "Repositories (Update r [e]) = Repositories r @ [e]"
    by (simp add: Update_single)
  have has': "Has (Update r [e]) (Entry_Name e)"
    unfolding Has_def Has_loop_iff upd by simp
  from nhas has' upd show ?thesis by simp
qed

theorem Update_replaces_first_or_appends_witness:
  "Has example_repofile ''local'' \<and>
   Repositories (Update example_repofile [example_entry ''local'' ''http://d'']) =
     [example_entry ''stable'' ''https://a'', example_entry ''local'' ''http://d'',
      example_entry ''local'' ''http://c''] \<and>
   \<not> Has example_repofile ''incubator'' \<and>
   Repositories (Update example_repofile [example_entry ''incubator'' ''http://e'']) =
     Repositories example_repofile @ [example_entry ''incubator'' ''http://e'']"
proof -
  have h1: "Has example_repofile (Entry_Name (example_entry ''local'' ''http://d''))"
    by (simp add: Has_def example_repofile_def example_entry_def)
  have h2: "\<not> Has example_repofile (Entry_Name (example_entry ''incubator'' ''http://e''))"
    by (simp add: Has_def example_repofile_def example_entry_def)
  from Update_replaces_first_or_appends [of example_repofile "example_entry ''local'' ''http://d''"] h1
  obtain j where j: "j < length (Repositories example_repofile)"
    "Entry_Name (Repositories example_repofile ! j) = ''local''"
    "\<forall>i < j. Entry_Name (Repositories example_repofile ! i) \<noteq> ''local''"
    "Repositories (Update example_repofile [example_entry ''local'' ''http://d'']) =
       (Repositories example_repofile)[j := example_entry ''local'' ''http://d'']"
    by (auto simp: example_entry_def)
  have "j = 1"
  proof -
    have "j < 3" using j(1) by (simp add: example_repofile_def)
    then consider "j = 0" | "j = 1" | "j = 2" by linarith
    then show ?thesis
    proof cases
      case 1
      with j(2) show ?thesis by (simp add: example_repofile_def example_entry_def)
    next
      case 2
      then show ?thesis .
    next
      case 3
      with j(3) have "Entry_Name (Repositories example_repofile ! 1) \<noteq> ''local''" by simp
      then show ?thesis by (simp add: example_repofile_def example_entry_def)
    qed
  qed
  with j(4) have a: "Repositories (Update example_repofile [example_entry ''local'' ''http://d'']) =
     [example_entry ''stable'' ''https://a'', example_entry ''local'' ''http://d'',
      example_entry ''local'' ''http://c'']"
    by (simp add: example_repofile_def)
  from Update_replaces_first_or_appends [of example_repofile "example_entry ''incubator'' ''http://e''"] h2
  have b: "Repositories (Update example_repofile [example_entry ''incubator'' ''http://e'']) =
     Repositories example_repofile @ [example_entry ''incubator'' ''http://e'']"
    by blast
  from h1 h2 a b show ?thesis by (simp add: example_entry_def)
qed

lemma fold_Add_legacy:
  "fold (\<lambda>kv r'. Add r' [legacy_entry kv]) m r =
   r\<lparr>Repositories := Repositories r @ map legacy_entry m\<rparr>"
  by (induction m arbitrary: r) (simp_all add: Add_def)

text \<open>
  C8, as stated, fails: the file \<open>corrupt\<close> can be read, its content decodes as a
  repositories file with an empty API version, and loading it returns no object and
  the error of the second decoding, not a migrated object with the out-of-date error.
\<close>

theorem LoadRepositoriesFile_corrupt_counterexample:
  "ReadFile example_repo_env ''corrupt'' = Inr ''repositories: []'' \<and>
   Unmarshal_RepoFile example_repo_env ''repositories: []'' =
     Inr \<lparr>APIVersion = [], Generated = 0, Repositories = []\<rparr> \<and>
   LoadRepositoriesFile example_repo_env ''corrupt'' = (None, Some (External ''cannot unmarshal'')) \<and>
   snd (LoadRepositoriesFile example_repo_env ''corrupt'') \<noteq> Some ErrRepoOutOfDate"
  by (simp add: LoadRepositoriesFile_def example_repo_env_def)

text \<open>
  C8, amended. Loading a repositories file that can be read and decoded. When the
  decoded API version is empty and the content also decodes as the legacy name-to-URL
  mapping \<open>m\<close>, the call returns the error \<open>ErrRepoOutOfDate\<close> together with a fresh
  repositories object that has one entry per pair of \<open>m\<close>, in the order the mapping is
  traversed, with the pair's name and URL. When the API version is empty and the
  content does not decode as such a mapping, the call returns the decoder's error and
  no object. When the API version is not empty, the call returns the decoded object
  and no error.
\<close>

theorem LoadRepositoriesFile_out_of_date_or_current:
  assumes "ReadFile env path = Inr b" and "Unmarshal_RepoFile env b = Inr r"
  shows "(APIVersion r = [] \<and> Unmarshal_map env b = Inr m \<longrightarrow>
            (\<exists>r'. LoadRepositoriesFile env path = (Some r', Some ErrRepoOutOfDate) \<and>
                  length (Repositories r') = length m \<and>
                  map (\<lambda>x. (Entry_Name x, Entry_URL x)) (Repositories r') = m \<and>
                  r' = \<lparr>APIVersion = APIVersionV1 env, Generated = time_Now env,
                        Repositories =
                          map (\<lambda>kv. \<lparr>Entry_Name = fst kv, Entry_Cache = fst kv @ ''-index.yaml'',
                                      Entry_URL = snd kv, Entry_CertFile = [],
                                      Entry_KeyFile = [], Entry_CAFile = []\<rparr>) m\<rparr>)) \<and>
         (APIVersion r = [] \<and> Unmarshal_map env b = Inl msg \<longrightarrow>
            LoadRepositoriesFile env path = (None, Some (External msg))) \<and>
         (APIVersion r \<noteq> [] \<longrightarrow> LoadRepositoriesFile env path = (Some r, None))"
proof -
  let ?mk = "\<lambda>kv. \<lparr>Entry_Name = fst kv, Entry_Cache = fst kv @ ''-index.yaml'',
                  Entry_URL = snd kv, Entry_CertFile = [],
                  Entry_KeyFile = [], Entry_CAFile = []\<rparr>"
  have eq: "legacy_entry = ?mk"
    by (rule ext) (simp add: legacy_entry_def)
  have pairs: "map (\<lambda>x. (Entry_Name x, Entry_URL x)) (map ?mk m) = m"
    by (induction m) simp_all
  show ?thesis
  proof (cases "APIVersion r = []")
    case True
    then have "Unmarshal_map env b = Inr m \<Longrightarrow>
        LoadRepositoriesFile env path =
          (Some \<lparr>APIVersion = APIVersionV1 env, Generated = time_Now env,
                 Repositories = map legacy_entry m\<rparr>, Some ErrRepoOutOfDate)"
      using assms by (simp add: LoadRepositoriesFile_def fold_Add_legacy NewRepoFile_def)
    then have "Unmarshal_map env b = Inr m \<Longrightarrow>
        LoadRepositoriesFile env path =
          (Some \<lparr>APIVersion = APIVersionV1 env, Generated = time_Now env,
                 Repositories = map ?mk m\<rparr>, Some ErrRepoOutOfDate)"
      unfolding eq .
    moreover have "Unmarshal_map env b = Inl msg \<Longrightarrow>
        LoadRepositoriesFile env path = (None, Some (External msg))"
      using assms True by (simp add: LoadRepositoriesFile_def)
    ultimately show ?thesis using True pairs by simp
  next
    case False
    then show ?thesis
      using assms by (simp add: LoadRepositoriesFile_def)
  qed
qed

theorem LoadRepositoriesFile_out_of_date_or_current_witness:
  "LoadRepositoriesFile example_repo_env ''old'' =
     (Some \<lparr>APIVersion = ''v1'', Generated = 42,
            Repositories = [\<lparr>Entry_Name = ''local'', Entry_Cache = ''local-index.yaml'',
                             Entry_URL = ''http://b'', Entry_CertFile = [],
                             Entry_KeyFile = [], Entry_CAFile = []\<rparr>]\<rparr>,
      Some ErrRepoOutOfDate) \<and>
   LoadRepositoriesFile example_repo_env ''new'' =
     (Some \<lparr>APIVersion = ''v1'', Generated = 7, Repositories = []\<rparr>, None) \<and>
   LoadRepositoriesFile example_repo_env ''corrupt'' =
     (None, Some (External ''cannot unmarshal''))"
proof -
  have r3: "ReadFile example_repo_env ''corrupt'' = Inr ''repositories: []''"
    by (simp add: example_repo_env_def)
  have u3: "Unmarshal_RepoFile example_repo_env ''repositories: []'' =
      Inr \<lparr>APIVersion = [], Generated = 0, Repositories = []\<rparr>"
    by (simp add: example_repo_env_def)
  have m3: "Unmarshal_map example_repo_env ''repositories: []'' = Inl ''cannot unmarshal''"
    by (simp add: example_repo_env_def)
  have c: "LoadRepositoriesFile example_repo_env ''corrupt'' =
     (None, Some (External ''cannot unmarshal''))"
    using LoadRepositoriesFile_out_of_date_or_current
      [OF r3 u3, of _ "''cannot unmarshal''"] m3
    by simp
  have r1: "ReadFile example_repo_env ''old'' = Inr ''local: http://b''"
    by (simp add: example_repo_env_def)
  have u1: "Unmarshal_RepoFile example_repo_env ''local: http://b'' =
      Inr \<lparr>APIVersion = [], Generated = 0, Repositories = []\<rparr>"
    by (simp add: example_repo_env_def)
  have m1: "Unmarshal_map example_repo_env ''local: http://b'' = Inr [(''local'', ''http://b'')]"
    by (simp add: example_repo_env_def)
  have r2: "ReadFile example_repo_env ''new'' = Inr ''apiVersion: v1''"
    by (simp add: example_repo_env_def)
  have u2: "Unmarshal_RepoFile example_repo_env ''apiVersion: v1'' =
      Inr \<lparr>APIVersion = ''v1'', Generated = 7, Repositories = []\<rparr>"
    by (simp add: example_repo_env_def)
  have a: "LoadRepositoriesFile example_repo_env ''old'' =
     (Some \<lparr>APIVersion = ''v1'', Generated = 42,
            Repositories = [\<lparr>Entry_Name = ''local'', Entry_Cache = ''local-index.yaml'',
                             Entry_URL = ''http://b'', Entry_CertFile = [],
                             Entry_KeyFile = [], Entry_CAFile = []\<rparr>]\<rparr>,
      Some ErrRepoOutOfDate)"
    using LoadRepositoriesFile_out_of_date_or_current
      [OF r1 u1, of "[(''local'', ''http://b'')]"] m1
    by (auto simp: example_repo_env_def)
  have b: "LoadRepositoriesFile example_repo_env ''new'' =
     (Some \<lparr>APIVersion = ''v1'', Generated = 7, Repositories = []\<rparr>, None)"
    using LoadRepositoriesFile_out_of_date_or_current [OF r2 u2] by simp
  from a b c show ?thesis by simp
qed

section \<open>Properties of the values-reuse policy\<close>

text \<open>
  C1, as stated, fails: with the reuse flag set and coalescing and serialization
  succeeding with \<open>name: value\<close>, the call returns no error and the request's
  configuration is still the override the request came with, not the recomputed value.
\<close>

theorem reuseValues_request_configuration_counterexample:
  "ReuseValues (example_request (Some \<lparr>Raw = ''name2: val2''\<rparr>) True) \<and>
   \<not> ResetValues (example_request (Some \<lparr>Raw = ''name2: val2''\<rparr>) True) \<and>
   example_CoalesceValues (Release_Chart (example_release ''name: value'' Status_DEPLOYED 1))
     (Release_Config (example_release ''name: value'' Status_DEPLOYED 1)) = Inr ''name: value'' \<and>
   example_YAML ''name: value'' = Inr ''name: value'' \<and>
   snd (reuseValues example_CoalesceValues example_YAML
          (example_request (Some \<lparr>Raw = ''name2: val2''\<rparr>) True)
          (example_release ''name: value'' Status_DEPLOYED 1)) = None \<and>
   Request_Values (fst (reuseValues example_CoalesceValues example_YAML
          (example_request (Some \<lparr>Raw = ''name2: val2''\<rparr>) True)
          (example_release ''name: value'' Status_DEPLOYED 1))) \<noteq> Some \<lparr>Raw = ''name: value''\<rparr>"
  by (simp add: reuseValues_def example_request_def example_release_def
      example_CoalesceValues_def example_YAML_def)

text \<open>
  C1, amended. With the reuse flag set and the reset flag not set: when coalescing the
  prior release's chart and stored configuration succeeds and the result serializes to
  \<open>nv\<close>, the call returns no error and the request differs from the one passed in only
  in the default values of its chart, which are now \<open>nv\<close>; the request's own
  configuration is as before. When coalescing or serialization fails, the call returns
  an error and the request is as before.
\<close>

theorem reuseValues_reuse_overwrites_chart_values:
  assumes "\<not> ResetValues req" and "ReuseValues req"
  shows "(CoalesceValues (Release_Chart current) (Release_Config current) = Inr oldVals \<and>
          YAML oldVals = Inr nv \<longrightarrow>
            reuseValues CoalesceValues YAML req current =
              (req\<lparr>Request_Chart := (Request_Chart req)\<lparr>Chart_Values := Some \<lparr>Raw = nv\<rparr>\<rparr>\<rparr>, None) \<and>
            Request_Values (fst (reuseValues CoalesceValues YAML req current)) =
              Request_Values req) \<and>
         (CoalesceValues (Release_Chart current) (Release_Config current) = Inl err \<longrightarrow>
            reuseValues CoalesceValues YAML req current =
              (req, Some (FailedToRebuildOldValues err))) \<and>
         (CoalesceValues (Release_Chart current) (Release_Config current) = Inr oldVals \<and>
          YAML oldVals = Inl err \<longrightarrow>
            reuseValues CoalesceValues YAML req current = (req, Some (External err)))"
  using assms by (simp add: reuseValues_def)

theorem reuseValues_reuse_overwrites_chart_values_witness:
  "reuseValues example_CoalesceValues example_YAML
      (example_request (Some \<lparr>Raw = ''name2: val2''\<rparr>) True)
      (example_release ''name: value'' Status_DEPLOYED 1) =
     (\<lparr>Request_Name = ''rel'',
       Request_Chart = \<lparr>Chart_Values = Some \<lparr>Raw = ''name: value''\<rparr>, Chart_contents = ()\<rparr>,
       Request_Values = Some \<lparr>Raw = ''name2: val2''\<rparr>, ResetValues = False,
       ReuseValues = True\<rparr>, None) \<and>
   reuseValues example_CoalesceValues example_YAML
      (example_request (Some \<lparr>Raw = ''name2: val2''\<rparr>) True)
      (example_release ''bad'' Status_DEPLOYED 1) =
     (example_request (Some \<lparr>Raw = ''name2: val2''\<rparr>) True,
      Some (FailedToRebuildOldValues ''cannot parse'')) \<and>
   reuseValues example_CoalesceValues example_YAML
      (example_request (Some \<lparr>Raw = ''name2: val2''\<rparr>) True)
      (example_release ''cyclic'' Status_DEPLOYED 1) =
     (example_request (Some \<lparr>Raw = ''name2: val2''\<rparr>) True,
      Some (External ''cannot marshal''))"
proof -
  let ?req = "example_request (Some \<lparr>Raw = ''name2: val2''\<rparr>) True"
  have f: "\<not> ResetValues ?req" "ReuseValues ?req"
    by (simp_all add: example_request_def)
  have c1: "example_CoalesceValues (Release_Chart (example_release ''name: value'' Status_DEPLOYED 1))
      (Release_Config (example_release ''name: value'' Status_DEPLOYED 1)) = Inr ''name: value''"
    by (simp add: example_CoalesceValues_def example_release_def)
  have y1: "example_YAML ''name: value'' = Inr ''name: value''"
    by (simp add: example_YAML_def)
  have c2: "example_CoalesceValues (Release_Chart (example_release ''bad'' Status_DEPLOYED 1))
      (Release_Config (example_release ''bad'' Status_DEPLOYED 1)) = Inl ''cannot parse''"
    by (simp add: example_CoalesceValues_def example_release_def)
  from reuseValues_reuse_overwrites_chart_values [OF f,
      of example_CoalesceValues "example_release ''name: value'' Status_DEPLOYED 1"
         "''name: value''" example_YAML "''name: value''"] c1 y1
  have a: "reuseValues example_CoalesceValues example_YAML ?req
      (example_release ''name: value'' Status_DEPLOYED 1) =
      (?req\<lparr>Request_Chart := (Request_Chart ?req)\<lparr>Chart_Values := Some \<lparr>Raw = ''name: value''\<rparr>\<rparr>\<rparr>,
       None)"
    by blast
  from reuseValues_reuse_overwrites_chart_values [OF f,
      of example_CoalesceValues "example_release ''bad'' Status_DEPLOYED 1"
         _ example_YAML _ "''cannot parse''"] c2
  have b: "reuseValues example_CoalesceValues example_YAML ?req
      (example_release ''bad'' Status_DEPLOYED 1) =
      (?req, Some (FailedToRebuildOldValues ''cannot parse''))"
    by blast
  have c3: "example_CoalesceValues (Release_Chart (example_release ''cyclic'' Status_DEPLOYED 1))
      (Release_Config (example_release ''cyclic'' Status_DEPLOYED 1)) = Inr ''cyclic''"
    by (simp add: example_CoalesceValues_def example_release_def)
  have y3: "example_YAML ''cyclic'' = Inl ''cannot marshal''"
    by (simp add: example_YAML_def)
  from reuseValues_reuse_overwrites_chart_values [OF f,
      of example_CoalesceValues "example_release ''cyclic'' Status_DEPLOYED 1"
         "''cyclic''" example_YAML _ "''cannot marshal''"] c3 y3
  have c: "reuseValues example_CoalesceValues example_YAML ?req
      (example_release ''cyclic'' Status_DEPLOYED 1) =
      (?req, Some (External ''cannot marshal''))"
    by blast
  from a b c show ?thesis by (simp add: example_request_def)
qed

text \<open>
  C7. With neither flag set the call returns no error, and the request afterwards is:
  the request with the prior release's stored configuration as its configuration, when
  the request's configuration is blank and the stored one is not; the request as it
  was, in every other case.
\<close>

theorem reuseValues_no_flag_carries_forward:
  assumes "\<not> ResetValues req" and "\<not> ReuseValues req"
  shows "reuseValues CoalesceValues YAML req current =
           (if blank_configuration (Request_Values req) \<and>
               \<not> blank_configuration (Release_Config current)
            then req\<lparr>Request_Values := Release_Config current\<rparr> else req, None)"
  using assms
  by (cases "Request_Values req"; cases "Release_Config current")
     (auto simp: reuseValues_def blank_configuration_def)

theorem reuseValues_no_flag_carries_forward_witness:
  "reuseValues example_CoalesceValues example_YAML
      (example_request (Some \<lparr>Raw = [CHR ''{'', CHR ''}'', CHR 0x0A]\<rparr>) False)
      (example_release ''name: x'' Status_DEPLOYED 1) =
     (\<lparr>Request_Name = ''rel'',
       Request_Chart = \<lparr>Chart_Values = Some \<lparr>Raw = ''foo: bar''\<rparr>, Chart_contents = ()\<rparr>,
       Request_Values = Some \<lparr>Raw = ''name: x''\<rparr>, ResetValues = False,
       ReuseValues = False\<rparr>, None) \<and>
   reuseValues example_CoalesceValues example_YAML
      (example_request (Some \<lparr>Raw = ''a: b''\<rparr>) False)
      (example_release ''name: x'' Status_DEPLOYED 1) =
     (example_request (Some \<lparr>Raw = ''a: b''\<rparr>) False, None) \<and>
   reuseValues example_CoalesceValues example_YAML
      (example_request None False)
      (example_release [CHR ''{'', CHR ''}'', CHR 0x0A] Status_DEPLOYED 1) =
     (example_request None False, None)"
proof -
  have f1: "\<not> ResetValues (example_request (Some \<lparr>Raw = [CHR ''{'', CHR ''}'', CHR 0x0A]\<rparr>) False)"
    "\<not> ReuseValues (example_request (Some \<lparr>Raw = [CHR ''{'', CHR ''}'', CHR 0x0A]\<rparr>) False)"
    by (simp_all add: example_request_def)
  have f2: "\<not> ResetValues (example_request (Some \<lparr>Raw = ''a: b''\<rparr>) False)"
    "\<not> ReuseValues (example_request (Some \<lparr>Raw = ''a: b''\<rparr>) False)"
    by (simp_all add: example_request_def)
  have f3: "\<not> ResetValues (example_request None False)"
    "\<not> ReuseValues (example_request None False)"
    by (simp_all add: example_request_def)
  show ?thesis
    using reuseValues_no_flag_carries_forward [OF f1, of example_CoalesceValues example_YAML
        "example_release ''name: x'' Status_DEPLOYED 1"]
      reuseValues_no_flag_carries_forward [OF f2, of example_CoalesceValues example_YAML
        "example_release ''name: x'' Status_DEPLOYED 1"]
      reuseValues_no_flag_carries_forward [OF f3, of example_CoalesceValues example_YAML
        "example_release [CHR ''{'', CHR ''}'', CHR 0x0A] Status_DEPLOYED 1"]
    by (simp add: blank_configuration_def example_request_def example_release_def)
qed

section \<open>Properties of the name allocator\<close>

lemma by_revision_descending_head:
  assumes "by_revision_descending h h'" and "h \<noteq> []"
  shows "\<exists>rel rest. h' = rel # rest \<and> rel \<in> set h \<and>
           (\<forall>r \<in> set h. Release_Version r \<le> Release_Version rel)"
proof -
  from assms have m: "mset h' = mset h"
    and s: "sorted_wrt (\<lambda>a b. Release_Version b \<le> Release_Version a) h'"
    by (simp_all add: by_revision_descending_def)
  from m have sets: "set h' = set h" by (rule mset_eq_setD)
  with \<open>h \<noteq> []\<close> have "h' \<noteq> []" by auto
  then obtain rel rest where h': "h' = rel # rest" by (cases h') auto
  from s h' have "\<forall>r \<in> set rest. Release_Version r \<le> Release_Version rel" by simp
  with sets h' have "\<forall>r \<in> set h. Release_Version r \<le> Release_Version rel" by auto
  moreover from sets h' have "rel \<in> set h" by auto
  ultimately show ?thesis using h' by blast
qed

text \<open>
  C5. A non-empty requested name. Longer than 53 bytes: an error, no name. Otherwise,
  with the history lookup returning \<open>(h, err)\<close>: when the lookup fails or the history is
  empty, the name is granted. When there is a history, and the reordered history is the
  same releases by descending revision, its first release \<open>rel\<close> is a release of the
  history with the highest revision, and: with the reuse flag and \<open>rel\<close> deleted or
  failed the name is granted; with the reuse flag and any other status of \<open>rel\<close> the
  call returns the error that the name is still in use; without the reuse flag the call
  returns the conflict error, whatever the status.
\<close>

theorem uniqName_requested_name:
  assumes "start \<noteq> []" and "Releases_History env start = (h, err)"
  shows "(length start > 53 \<longrightarrow>
            uniqName env start reuse = Inr ([], Some (ExceedsMaxLength start 53))) \<and>
         (length start \<le> 53 \<and> (err \<noteq> None \<or> h = []) \<longrightarrow>
            uniqName env start reuse = Inr (start, None)) \<and>
         (length start \<le> 53 \<and> err = None \<and> h \<noteq> [] \<and>
          by_revision_descending h (Reverse_SortByRevision env h) \<longrightarrow>
            (\<exists>rel rest. Reverse_SortByRevision env h = rel # rest \<and> rel \<in> set h \<and>
               (\<forall>r \<in> set h. Release_Version r \<le> Release_Version rel) \<and>
               (reuse \<and> (Release_Status rel = Status_DELETED \<or> Release_Status rel = Status_FAILED) \<longrightarrow>
                  uniqName env start reuse = Inr (start, None)) \<and>
               (reuse \<and> Release_Status rel \<noteq> Status_DELETED \<and> Release_Status rel \<noteq> Status_FAILED \<longrightarrow>
                  uniqName env start reuse = Inr ([], Some NameStillInUse)) \<and>
               (\<not> reuse \<longrightarrow>
                  uniqName env start reuse = Inr ([], Some (ReleaseAlreadyExists start)))))"
proof (intro conjI impI)
  assume "53 < length start"
  with assms(1) show "uniqName env start reuse = Inr ([], Some (ExceedsMaxLength start 53))"
    by (simp add: uniqName_def releaseNameMaxLen_def)
next
  assume "length start \<le> 53 \<and> (err \<noteq> None \<or> h = [])"
  with assms show "uniqName env start reuse = Inr (start, None)"
    by (auto simp: uniqName_def releaseNameMaxLen_def)
next
  assume a: "length start \<le> 53 \<and> err = None \<and> h \<noteq> [] \<and>
    by_revision_descending h (Reverse_SortByRevision env h)"
  then obtain rel rest where r: "Reverse_SortByRevision env h = rel # rest" "rel \<in> set h"
    "\<forall>r \<in> set h. Release_Version r \<le> Release_Version rel"
    using by_revision_descending_head [of h "Reverse_SortByRevision env h"] by blast
  have u: "uniqName env start reuse =
      (if reuse \<and> (Release_Status rel = Status_DELETED \<or> Release_Status rel = Status_FAILED)
       then Inr (start, None)
       else if reuse then Inr ([], Some NameStillInUse)
       else Inr ([], Some (ReleaseAlreadyExists start)))"
    using assms a r(1) by (simp add: uniqName_def releaseNameMaxLen_def Let_def)
  have "(reuse \<and> (Release_Status rel = Status_DELETED \<or> Release_Status rel = Status_FAILED) \<longrightarrow>
          uniqName env start reuse = Inr (start, None)) \<and>
        (reuse \<and> Release_Status rel \<noteq> Status_DELETED \<and> Release_Status rel \<noteq> Status_FAILED \<longrightarrow>
          uniqName env start reuse = Inr ([], Some NameStillInUse)) \<and>
        (\<not> reuse \<longrightarrow> uniqName env start reuse = Inr ([], Some (ReleaseAlreadyExists start)))"
    unfolding u by simp
  with r show "\<exists>rel rest. Reverse_SortByRevision env h = rel # rest \<and> rel \<in> set h \<and>
       (\<forall>r \<in> set h. Release_Version r \<le> Release_Version rel) \<and>
       (reuse \<and> (Release_Status rel = Status_DELETED \<or> Release_Status rel = Status_FAILED) \<longrightarrow>
          uniqName env start reuse = Inr (start, None)) \<and>
       (reuse \<and> Release_Status rel \<noteq> Status_DELETED \<and> Release_Status rel \<noteq> Status_FAILED \<longrightarrow>
          uniqName env start reuse = Inr ([], Some NameStillInUse)) \<and>
       (\<not> reuse \<longrightarrow> uniqName env start reuse = Inr ([], Some (ReleaseAlreadyExists start)))"
    by blast
qed

theorem uniqName_requested_name_witness:
  "uniqName example_name_env ''gone'' True = Inr (''gone'', None) \<and>
   uniqName example_name_env ''live'' True = Inr ([], Some NameStillInUse) \<and>
   uniqName example_name_env ''live'' False = Inr ([], Some (ReleaseAlreadyExists ''live'')) \<and>
   uniqName example_name_env ''fresh'' False = Inr (''fresh'', None) \<and>
   uniqName example_name_env ''aaaaaaaaaaaaaaaaaaaaaaaaaaaaaaaaaaaaaaaaaaaaaaaaaaaaaa'' True =
     Inr ([], Some (ExceedsMaxLength ''aaaaaaaaaaaaaaaaaaaaaaaaaaaaaaaaaaaaaaaaaaaaaaaaaaaaaa'' 53))"
proof -
  let ?gone = "[example_release [] Status_SUPERSEDED 1, example_release [] Status_DELETED 2]"
  let ?live = "[example_release [] Status_SUPERSEDED 1, example_release [] Status_DEPLOYED 2]"
  have hg: "Releases_History example_name_env ''gone'' = (?gone, None)"
    and hl: "Releases_History example_name_env ''live'' = (?live, None)"
    and hf: "Releases_History example_name_env ''fresh'' = ([], Some ''release: not found'')"
    and ha: "Releases_History example_name_env
               ''aaaaaaaaaaaaaaaaaaaaaaaaaaaaaaaaaaaaaaaaaaaaaaaaaaaaaa'' =
             ([], Some ''release: not found'')"
    by (simp_all add: example_name_env_def)
  have sg: "Reverse_SortByRevision example_name_env ?gone =
      [example_release [] Status_DELETED 2, example_release [] Status_SUPERSEDED 1]"
    and sl: "Reverse_SortByRevision example_name_env ?live =
      [example_release [] Status_DEPLOYED 2, example_release [] Status_SUPERSEDED 1]"
    by (simp_all add: example_name_env_def example_release_def)
  have dg: "by_revision_descending ?gone (Reverse_SortByRevision example_name_env ?gone)"
    and dl: "by_revision_descending ?live (Reverse_SortByRevision example_name_env ?live)"
    unfolding sg sl by (simp_all add: by_revision_descending_def example_release_def)
  have g: "uniqName example_name_env ''gone'' True = Inr (''gone'', None)"
    using uniqName_requested_name [OF _ hg, of True] dg
    unfolding sg by (auto simp: example_release_def)
  have l1: "uniqName example_name_env ''live'' True = Inr ([], Some NameStillInUse)"
    using uniqName_requested_name [OF _ hl, of True] dl
    unfolding sl by (auto simp: example_release_def)
  have l2: "uniqName example_name_env ''live'' False = Inr ([], Some (ReleaseAlreadyExists ''live''))"
    using uniqName_requested_name [OF _ hl, of False] dl
    unfolding sl by (auto simp: example_release_def)
  have f: "uniqName example_name_env ''fresh'' False = Inr (''fresh'', None)"
    using uniqName_requested_name [OF _ hf, of False] by simp
  have a: "uniqName example_name_env ''aaaaaaaaaaaaaaaaaaaaaaaaaaaaaaaaaaaaaaaaaaaaaaaaaaaaaa'' True =
     Inr ([], Some (ExceedsMaxLength ''aaaaaaaaaaaaaaaaaaaaaaaaaaaaaaaaaaaaaaaaaaaaaaaaaaaaaa'' 53))"
    using uniqName_requested_name [OF _ ha, of True] by simp
  from g l1 l2 f a show ?thesis by simp
qed

text \<open>
  The loop in general. The name tried in round \<open>i\<close> is the generated name cut to 53
  bytes. A round whose lookup returns the \<open>nil\<close> error ends the call in a panic; while
  the lookups return errors whose message lacks \<open>not found\<close> the loop goes on, for
  at most five rounds; the first round whose lookup returns an error with \<open>not found\<close>
  in its message returns that round's name.
\<close>

lemma uniqName_loop_unfold:
  "uniqName_loop env i =
     (if i < 5 then
        (case snd (Releases_Get env (take 53 (moniker_NameSep env i)) 1) of
           None \<Rightarrow> Inl NilPointerDereference
         | Some err \<Rightarrow>
             if strings_Contains err ''not found''
             then Inr (take 53 (moniker_NameSep env i), None)
             else uniqName_loop env (Suc i))
      else Inr (''ERROR'', Some NoAvailableReleaseName))"
  by (subst uniqName_loop.simps)
     (auto simp: maxTries_def releaseNameMaxLen_def Let_def split: option.splits)

lemma uniqName_loop_taken_panics:
  assumes "i < 5" and "snd (Releases_Get env (take 53 (moniker_NameSep env i)) 1) = None"
  shows "uniqName_loop env i = Inl NilPointerDereference"
  using assms by (subst uniqName_loop_unfold) simp

lemma uniqName_loop_first_not_found:
  assumes "i + k < 5"
    and "\<forall>j < k. \<exists>msg. snd (Releases_Get env (take 53 (moniker_NameSep env (i + j))) 1) = Some msg \<and>
           \<not> strings_Contains msg ''not found''"
    and "snd (Releases_Get env (take 53 (moniker_NameSep env (i + k))) 1) = Some msg"
    and "strings_Contains msg ''not found''"
  shows "uniqName_loop env i = Inr (take 53 (moniker_NameSep env (i + k)), None)"
  using assms
proof (induction k arbitrary: i)
  case 0
  then show ?case by (subst uniqName_loop_unfold) simp
next
  case (Suc k)
  from Suc.prems(2) obtain m0 where m0:
    "snd (Releases_Get env (take 53 (moniker_NameSep env i)) 1) = Some m0"
    "\<not> strings_Contains m0 ''not found''"
    by force
  have "\<forall>j < k. \<exists>msg. snd (Releases_Get env (take 53 (moniker_NameSep env (Suc i + j))) 1) = Some msg \<and>
           \<not> strings_Contains msg ''not found''"
  proof (intro allI impI)
    fix j assume "j < k"
    then have "Suc j < Suc k" by simp
    with Suc.prems(2) show "\<exists>msg. snd (Releases_Get env (take 53 (moniker_NameSep env (Suc i + j))) 1) = Some msg \<and>
           \<not> strings_Contains msg ''not found''"
      by (metis add_Suc_right add_Suc)
  qed
  with Suc.IH [of "Suc i"] Suc.prems(1,3,4)
  have "uniqName_loop env (Suc i) = Inr (take 53 (moniker_NameSep env (i + Suc k)), None)"
    by simp
  moreover have "i < 5" using Suc.prems(1) by simp
  ultimately show ?case using m0 by (subst uniqName_loop_unfold) simp
qed

lemma uniqName_loop_exhausted:
  assumes "\<forall>j < 5. i \<le> j \<longrightarrow> (\<exists>msg. snd (Releases_Get env (take 53 (moniker_NameSep env j)) 1) = Some msg \<and>
           \<not> strings_Contains msg ''not found'')"
  shows "uniqName_loop env i = Inr (''ERROR'', Some NoAvailableReleaseName)"
  using assms
proof (induction "5 - i" arbitrary: i)
  case 0
  then show ?case by (subst uniqName_loop_unfold) simp
next
  case (Suc n)
  then have i: "i < 5" by simp
  with Suc.prems obtain m0 where m0:
    "snd (Releases_Get env (take 53 (moniker_NameSep env i)) 1) = Some m0"
    "\<not> strings_Contains m0 ''not found''"
    by blast
  have "uniqName_loop env (Suc i) = Inr (''ERROR'', Some NoAvailableReleaseName)"
  proof (rule Suc.hyps(1))
    show "n = 5 - Suc i" using Suc.hyps(2) by simp
    show "\<forall>j < 5. Suc i \<le> j \<longrightarrow> (\<exists>msg. snd (Releases_Get env (take 53 (moniker_NameSep env j)) 1) = Some msg \<and>
           \<not> strings_Contains msg ''not found'')"
      using Suc.prems by simp
  qed
  with i m0 show ?case by (subst uniqName_loop_unfold) simp
qed

text \<open>
  C4 does not hold of the code. When the lookup of a generated name finds the name
  taken, it returns the release and the \<open>nil\<close> error; the loop then asks that error for
  its message, which is a nil pointer dereference. So when the first generated name
  (cut to 53 bytes) is taken, the call with an empty requested name ends in that panic
  at the first attempt, where the claim has it go on to the next attempt and, after
  five taken names, return the error that no name is available.
\<close>

theorem uniqName_generated_name_taken_panics:
  assumes "snd (Releases_Get env (take 53 (moniker_NameSep env 0)) 1) = None"
  shows "uniqName env [] reuse = Inl NilPointerDereference"
proof -
  have "uniqName_loop env 0 = Inl NilPointerDereference"
    by (rule uniqName_loop_taken_panics) (simp_all add: assms)
  then show ?thesis by (simp add: uniqName_def)
qed

theorem uniqName_generated_name_taken_panics_witness:
  "Releases_Get example_name_env (take 53 (moniker_NameSep example_name_env 0)) 1 =
     (Some (example_release [] Status_DEPLOYED 1), None) \<and>
   uniqName example_name_env [] False = Inl NilPointerDereference \<and>
   uniqName example_name_env [] False \<noteq> Inr (''ERROR'', Some NoAvailableReleaseName)"
proof -
  have g: "Releases_Get example_name_env (take 53 (moniker_NameSep example_name_env 0)) 1 =
     (Some (example_release [] Status_DEPLOYED 1), None)"
    by (simp add: example_name_env_def)
  then have "snd (Releases_Get example_name_env (take 53 (moniker_NameSep example_name_env 0)) 1) =
      None"
    by simp
  from uniqName_generated_name_taken_panics [OF this, of False] g show ?thesis by simp
qed

section \<open>Properties of the manifest classifier\<close>

lemma hookTypes_loop_result:
  "hookTypes_loop env ts (h, b) =
     (h\<lparr>Hook_Events := Hook_Events h @
          List.map_filter (\<lambda>t. events (strings_ToLower env (strings_TrimSpace env t))) ts\<rparr>,
      b \<or> (\<exists>t \<in> set ts. events (strings_ToLower env (strings_TrimSpace env t)) \<noteq> None))"
proof (induction ts arbitrary: h b)
  case Nil
  then show ?case by (simp add: List.map_filter_simps)
next
  case (Cons t ts)
  show ?case
  proof (cases "events (strings_ToLower env (strings_TrimSpace env t))")
    case None
    then show ?thesis by (simp add: Cons.IH List.map_filter_simps)
  next
    case (Some e)
    then show ?thesis by (simp add: Cons.IH List.map_filter_simps)
  qed
qed

lemma hookTypes_loop_unknown:
  assumes "\<forall>t \<in> set ts. events (strings_ToLower env (strings_TrimSpace env t)) = None"
  shows "hookTypes_loop env ts (h, False) = (h, False)"
proof -
  from assms have "List.map_filter (\<lambda>t. events (strings_ToLower env (strings_TrimSpace env t))) ts = []"
    by (induction ts) (simp_all add: List.map_filter_simps)
  with assms show ?thesis by (simp add: hookTypes_loop_result)
qed

lemma sort_loop_entries_irrelevant:
  "sort_loop env (file\<lparr>mf_entries := es'\<rparr>) es res = sort_loop env file es res"
  by (induction es arbitrary: res) (simp_all split: sum.splits)

lemma sort_loop_append:
  "sort_loop env file (xs @ ys) res =
     (case sort_loop env file xs res of
        (r, Some e) \<Rightarrow> (r, Some e)
      | (r, None) \<Rightarrow> sort_loop env file ys r)"
  by (induction xs arbitrary: res) (simp_all split: sum.splits)

lemma sort_loop_skip:
  assumes "\<And>r. sort_entry env (mf_path mf) (mf_apis mf) r (snd km) = Inr r"
  shows "sort_loop env mf (pre @ km # post) res = sort_loop env mf (pre @ post) res"
  by (simp add: sort_loop_append assms split: prod.splits option.splits)

lemma sort_entry_dropped:
  assumes "yaml_Unmarshal env m = Inr entry"
    and "Version entry = [] \<or> Version entry \<in> apis"
    and "Metadata entry = Some md"
    and "map_of (Annotations md) (HookAnno env) = Some hookTypes"
    and "\<forall>t \<in> set (strings_Split_comma hookTypes).
           events (strings_ToLower env (strings_TrimSpace env t)) = None"
  shows "sort_entry env path apis res m = Inr res"
proof -
  from assms(4) have "Annotations md \<noteq> []" by auto
  with assms(3) have "hasAnyAnnotation entry" by (simp add: hasAnyAnnotation_def)
  with assms(1-4) hookTypes_loop_unknown [OF assms(5)] show ?thesis
    by (auto simp: sort_entry_def Let_def)
qed

text \<open>
  C2, as stated, fails: the API version of a document is checked before its annotations
  are read. A file set whose only document has a hook annotation naming one event,
  which is not a recognized one, and an API version that the capability set lacks, is
  classified with an error raised for that document.
\<close>

theorem sortManifests_unrecognized_hook_unsupported_version_counterexample:
  "yaml_Unmarshal example_hooks_env ''job: no-such-hook'' =
     Inr (example_head ''batch/v1'' ''Job'' ''lost'' [(''helm.sh/hook'', ''no-such-hook'')]) \<and>
   HookAnno example_hooks_env = ''helm.sh/hook'' \<and>
   strings_Split_comma ''no-such-hook'' = [''no-such-hook''] \<and>
   events (strings_ToLower example_hooks_env
             (strings_TrimSpace example_hooks_env ''no-such-hook'')) = None \<and>
   sort_entry example_hooks_env ''chart/templates/job.yaml'' {''v1''} empty_result
       ''job: no-such-hook'' =
     Inl (ApiVersionNotAvailable ''batch/v1'' ''chart/templates/job.yaml'') \<and>
   sortManifests example_hooks_env [(''chart/templates/job.yaml'', ''job: no-such-hook'')]
     {''v1''} () = ([], [], Some (ApiVersionNotAvailable ''batch/v1'' ''chart/templates/job.yaml''))"
  by (simp add: sortManifests_def manifestFile_sort_def sort_entry_def example_hooks_env_def
      example_Unmarshal_def example_head_def events_def example_ToLower_def
      example_TrimSpace_def path_Base_def empty_result_def)

text \<open>
  C2, amended. A document whose header parses and whose API version is empty or in the
  capability set, and whose hook annotation is present but has no recognized event
  name among its comma-separated pieces: the body of the loop returns the result it was
  given, with no error; and the classification of a file that holds the document is
  that of the file without it.
\<close>

theorem sort_drops_document_without_recognized_event:
  assumes "yaml_Unmarshal env m = Inr entry"
    and "Version entry = [] \<or> Version entry \<in> mf_apis file"
    and "Metadata entry = Some md"
    and "map_of (Annotations md) (HookAnno env) = Some hookTypes"
    and "\<forall>t \<in> set (strings_Split_comma hookTypes).
           events (strings_ToLower env (strings_TrimSpace env t)) = None"
  shows "sort_entry env (mf_path file) (mf_apis file) res m = Inr res \<and>
         (mf_entries file = pre @ (k, m) # post \<longrightarrow>
            manifestFile_sort env file res =
              manifestFile_sort env (file\<lparr>mf_entries := pre @ post\<rparr>) res)"
proof -
  have drop: "\<And>r. sort_entry env (mf_path file) (mf_apis file) r (snd (k, m)) = Inr r"
    using sort_entry_dropped [OF assms] by simp
  have "mf_entries file = pre @ (k, m) # post \<Longrightarrow>
      manifestFile_sort env file res = manifestFile_sort env (file\<lparr>mf_entries := pre @ post\<rparr>) res"
    using sort_loop_skip [of env "file" "(k, m)" pre post res, OF drop]
    by (simp add: manifestFile_sort_def sort_loop_entries_irrelevant)
  with drop [of res] show ?thesis by simp
qed

theorem sort_drops_document_without_recognized_event_witness:
  "sort_entry example_hooks_env ''t/a.yaml'' {''v1'', ''batch/v1''} empty_result
     ''job: no-such-hook'' = Inr empty_result \<and>
   manifestFile_sort example_hooks_env
     ((example_file ''t/a.yaml'')
        \<lparr>mf_entries := [(''manifest-0'', ''configmap''), (''manifest-1'', ''job: no-such-hook'')]\<rparr>)
     empty_result =
   manifestFile_sort example_hooks_env
     ((example_file ''t/a.yaml'')\<lparr>mf_entries := [(''manifest-0'', ''configmap'')]\<rparr>) empty_result"
proof -
  let ?file = "(example_file ''t/a.yaml'')
        \<lparr>mf_entries := [(''manifest-0'', ''configmap''), (''manifest-1'', ''job: no-such-hook'')]\<rparr>"
  let ?md = "\<lparr>Metadata_Name = ''lost'', Annotations = [(''helm.sh/hook'', ''no-such-hook'')]\<rparr>"
  let ?entry = "\<lparr>Version = ''batch/v1'', Kind = ''Job'', Metadata = Some ?md\<rparr>"
  have 1: "yaml_Unmarshal example_hooks_env ''job: no-such-hook'' = Inr ?entry"
    by (simp add: example_hooks_env_def example_Unmarshal_def example_head_def)
  have 2: "Version ?entry = [] \<or> Version ?entry \<in> mf_apis ?file"
    by (simp add: example_file_def)
  have 3: "Metadata ?entry = Some ?md"
    by simp
  have 4: "map_of (Annotations ?md) (HookAnno example_hooks_env) = Some ''no-such-hook''"
    by (simp add: example_hooks_env_def)
  have 5: "\<forall>t \<in> set (strings_Split_comma ''no-such-hook'').
      events (strings_ToLower example_hooks_env (strings_TrimSpace example_hooks_env t)) = None"
    by (simp add: example_hooks_env_def example_ToLower_def example_TrimSpace_def events_def)
  have e: "mf_entries ?file = [(''manifest-0'', ''configmap'')] @ (''manifest-1'', ''job: no-such-hook'') # []"
    by simp
  from sort_drops_document_without_recognized_event [OF 1 2 3 4 5,
      of empty_result "[(''manifest-0'', ''configmap'')]" "''manifest-1''" "[]"] e
  have a: "sort_entry example_hooks_env (mf_path ?file) (mf_apis ?file) empty_result
      ''job: no-such-hook'' = Inr empty_result"
    and b: "manifestFile_sort example_hooks_env ?file empty_result =
      manifestFile_sort example_hooks_env (?file\<lparr>mf_entries := [(''manifest-0'', ''configmap'')]\<rparr>)
        empty_result"
    by simp_all
  from a b show ?thesis by (simp add: example_file_def)
qed

lemma sort_entry_generic_prefix:
  "sort_entry env path apis res m = Inr res' \<Longrightarrow>
   prefix (result_generic res) (result_generic res')"
  by (auto simp: sort_entry_def Let_def split: sum.splits if_splits option.splits prod.splits)

lemma sort_loop_generic_prefix:
  "sort_loop env mf es res = (res', e) \<Longrightarrow> prefix (result_generic res) (result_generic res')"
proof (induction es arbitrary: res)
  case Nil
  then show ?case by simp
next
  case (Cons km es)
  show ?case
  proof (cases "sort_entry env (mf_path mf) (mf_apis mf) res (snd km)")
    case (Inl err)
    with Cons.prems show ?thesis by simp
  next
    case (Inr r1)
    with Cons.prems have "sort_loop env mf es r1 = (res', e)" by simp
    then have "prefix (result_generic r1) (result_generic res')" by (rule Cons.IH)
    moreover from Inr have "prefix (result_generic res) (result_generic r1)"
      by (rule sort_entry_generic_prefix)
    ultimately show ?thesis by (rule prefix_order.trans [rotated])
  qed
qed

lemma sort_entry_generic:
  assumes "yaml_Unmarshal env m = Inr entry"
    and "Version entry = [] \<or> Version entry \<in> apis"
    and "Metadata entry = None \<or>
         (\<exists>md. Metadata entry = Some md \<and> map_of (Annotations md) (HookAnno env) = None)"
  shows "sort_entry env path apis res m =
           Inr (res\<lparr>result_generic := result_generic res @
                  [\<lparr>manifest_name = path, manifest_content = m, manifest_head = entry\<rparr>]\<rparr>)"
  using assms by (auto simp: sort_entry_def Let_def)

text \<open>
  C3, as stated, fails for the documents it includes in parentheses: a file set whose
  only document has a hook annotation that names one event, which is not a recognized
  one, is classified without error into no hook and no generic manifest.
\<close>

theorem sortManifests_unrecognized_hook_counterexample:
  "yaml_Unmarshal example_hooks_env ''job: no-such-hook'' =
     Inr (example_head ''batch/v1'' ''Job'' ''lost'' [(''helm.sh/hook'', ''no-such-hook'')]) \<and>
   HookAnno example_hooks_env = ''helm.sh/hook'' \<and>
   events (strings_ToLower example_hooks_env
             (strings_TrimSpace example_hooks_env ''no-such-hook'')) = None \<and>
   sortManifests example_hooks_env [(''chart/templates/job.yaml'', ''job: no-such-hook'')]
     {''v1'', ''batch/v1''} () = ([], [], None)"
  by (simp add: sortManifests_def manifestFile_sort_def sort_entry_def example_hooks_env_def
      example_Unmarshal_def example_head_def hasAnyAnnotation_def calculateHookWeight_def
      events_def example_ToLower_def example_TrimSpace_def path_Base_def)

text \<open>
  C3, amended. A document whose header parses and passes the API version check, and
  which has no metadata or no hook annotation among its annotations: the loop body
  appends one generic manifest to the result, with the document's text as its content,
  the path of the file as its name and the parsed header as its head, and changes
  nothing else; and when the classification of a file that holds the document returns
  without error, that generic manifest is in its result.
\<close>

theorem sort_document_without_hook_annotation_is_generic:
  assumes "yaml_Unmarshal env m = Inr entry"
    and "Version entry = [] \<or> Version entry \<in> mf_apis mf"
    and "Metadata entry = None \<or>
         (\<exists>md. Metadata entry = Some md \<and> map_of (Annotations md) (HookAnno env) = None)"
  shows "sort_entry env (mf_path mf) (mf_apis mf) res m =
           Inr (res\<lparr>result_generic := result_generic res @
                  [\<lparr>manifest_name = mf_path mf, manifest_content = m, manifest_head = entry\<rparr>]\<rparr>) \<and>
         (mf_entries mf = pre @ (k, m) # post \<and> manifestFile_sort env mf res = (res', None) \<longrightarrow>
            \<lparr>manifest_name = mf_path mf, manifest_content = m, manifest_head = entry\<rparr>
              \<in> set (result_generic res'))"
proof -
  let ?g = "\<lparr>manifest_name = mf_path mf, manifest_content = m, manifest_head = entry\<rparr>"
  have step: "\<And>r. sort_entry env (mf_path mf) (mf_apis mf) r m =
      Inr (r\<lparr>result_generic := result_generic r @ [?g]\<rparr>)"
    using assms by (rule sort_entry_generic)
  have "?g \<in> set (result_generic res')"
    if e: "mf_entries mf = pre @ (k, m) # post" and s: "manifestFile_sort env mf res = (res', None)"
  proof -
    from s e have l: "sort_loop env mf (pre @ (k, m) # post) res = (res', None)"
      by (simp add: manifestFile_sort_def)
    obtain r1 e1 where p: "sort_loop env mf pre res = (r1, e1)" by (cases "sort_loop env mf pre res")
    with l have "e1 = None"
      by (cases e1) (simp_all add: sort_loop_append)
    with l p have "sort_loop env mf post (r1\<lparr>result_generic := result_generic r1 @ [?g]\<rparr>) =
        (res', None)"
      by (simp add: sort_loop_append step)
    then have "prefix (result_generic (r1\<lparr>result_generic := result_generic r1 @ [?g]\<rparr>))
        (result_generic res')"
      by (rule sort_loop_generic_prefix)
    then have "prefix (result_generic r1 @ [?g]) (result_generic res')"
      by simp
    then have "set (result_generic r1 @ [?g]) \<subseteq> set (result_generic res')"
      by (rule set_mono_prefix)
    then show ?thesis by simp
  qed
  with step [of res] show ?thesis by blast
qed

theorem sort_document_without_hook_annotation_is_generic_witness:
  "sort_entry example_hooks_env ''t/a.yaml'' {''v1'', ''batch/v1''} empty_result ''configmap'' =
     Inr \<lparr>result_hooks = [],
          result_generic =
            [\<lparr>manifest_name = ''t/a.yaml'', manifest_content = ''configmap'',
              manifest_head = \<lparr>Version = ''v1'', Kind = ''ConfigMap'', Metadata = None\<rparr>\<rparr>]\<rparr> \<and>
   sort_entry example_hooks_env ''t/a.yaml'' {''v1'', ''batch/v1''} empty_result
       ''configmap: annotated'' =
     Inr \<lparr>result_hooks = [],
          result_generic =
            [\<lparr>manifest_name = ''t/a.yaml'', manifest_content = ''configmap: annotated'',
              manifest_head = example_head ''v1'' ''ConfigMap'' ''cm'' [(''owner'', ''team'')]\<rparr>]\<rparr> \<and>
   \<lparr>manifest_name = ''t/a.yaml'', manifest_content = ''configmap'',
    manifest_head = \<lparr>Version = ''v1'', Kind = ''ConfigMap'', Metadata = None\<rparr>\<rparr>
     \<in> set (result_generic (fst (manifestFile_sort example_hooks_env
         \<lparr>mf_entries = [(''manifest-0'', ''job: pre-install, bogus-event''),
                       (''manifest-1'', ''configmap'')],
          mf_path = ''t/a.yaml'', mf_apis = {''v1'', ''batch/v1''}\<rparr> empty_result)))"
proof -
  let ?mf = "\<lparr>mf_entries = [(''manifest-0'', ''job: pre-install, bogus-event''),
                       (''manifest-1'', ''configmap'')],
          mf_path = ''t/a.yaml'', mf_apis = {''v1'', ''batch/v1''}\<rparr>"
  have "snd (manifestFile_sort example_hooks_env ?mf empty_result) = None"
    by (simp add: manifestFile_sort_def sort_entry_def example_hooks_env_def
        example_Unmarshal_def example_head_def hasAnyAnnotation_def calculateHookWeight_def
        events_def example_ToLower_def example_TrimSpace_def)
  then have s3: "manifestFile_sort example_hooks_env ?mf empty_result =
      (fst (manifestFile_sort example_hooks_env ?mf empty_result), None)"
    by (metis prod.collapse)
  have e3: "mf_entries ?mf =
      [(''manifest-0'', ''job: pre-install, bogus-event'')] @ (''manifest-1'', ''configmap'') # []"
    by simp
  have v3: "Version \<lparr>Version = ''v1'', Kind = ''ConfigMap'', Metadata = None\<rparr> = [] \<or>
      Version \<lparr>Version = ''v1'', Kind = ''ConfigMap'', Metadata = None\<rparr> \<in> mf_apis ?mf"
    by simp
  have u1: "yaml_Unmarshal example_hooks_env ''configmap'' =
      Inr \<lparr>Version = ''v1'', Kind = ''ConfigMap'', Metadata = None\<rparr>"
    by (simp add: example_hooks_env_def example_Unmarshal_def)
  have v1: "Version \<lparr>Version = ''v1'', Kind = ''ConfigMap'', Metadata = None\<rparr> = [] \<or>
      Version \<lparr>Version = ''v1'', Kind = ''ConfigMap'', Metadata = None\<rparr>
        \<in> mf_apis (example_file ''t/a.yaml'')"
    by (simp add: example_file_def)
  have m1: "Metadata \<lparr>Version = ''v1'', Kind = ''ConfigMap'', Metadata = None\<rparr> = None \<or>
      (\<exists>md. Metadata \<lparr>Version = ''v1'', Kind = ''ConfigMap'', Metadata = None\<rparr> = Some md \<and>
         map_of (Annotations md) (HookAnno example_hooks_env) = None)"
    by simp
  let ?h2 = "example_head ''v1'' ''ConfigMap'' ''cm'' [(''owner'', ''team'')]"
  have u2: "yaml_Unmarshal example_hooks_env ''configmap: annotated'' = Inr ?h2"
    by (simp add: example_hooks_env_def example_Unmarshal_def)
  have v2: "Version ?h2 = [] \<or> Version ?h2 \<in> mf_apis (example_file ''t/a.yaml'')"
    by (simp add: example_file_def example_head_def)
  have m2: "Metadata ?h2 = None \<or>
      (\<exists>md. Metadata ?h2 = Some md \<and> map_of (Annotations md) (HookAnno example_hooks_env) = None)"
    by (simp add: example_head_def example_hooks_env_def)
  have c: "\<lparr>manifest_name = ''t/a.yaml'', manifest_content = ''configmap'',
      manifest_head = \<lparr>Version = ''v1'', Kind = ''ConfigMap'', Metadata = None\<rparr>\<rparr>
     \<in> set (result_generic (fst (manifestFile_sort example_hooks_env ?mf empty_result)))"
    using sort_document_without_hook_annotation_is_generic [OF u1 v3 m1,
        of empty_result "[(''manifest-0'', ''job: pre-install, bogus-event'')]" "''manifest-1''" "[]"
           "fst (manifestFile_sort example_hooks_env ?mf empty_result)"] e3 s3
    by simp
  have ab: "sort_entry example_hooks_env ''t/a.yaml'' {''v1'', ''batch/v1''} empty_result ''configmap'' =
     Inr \<lparr>result_hooks = [],
          result_generic =
            [\<lparr>manifest_name = ''t/a.yaml'', manifest_content = ''configmap'',
              manifest_head = \<lparr>Version = ''v1'', Kind = ''ConfigMap'', Metadata = None\<rparr>\<rparr>]\<rparr> \<and>
   sort_entry example_hooks_env ''t/a.yaml'' {''v1'', ''batch/v1''} empty_result
       ''configmap: annotated'' =
     Inr \<lparr>result_hooks = [],
          result_generic =
            [\<lparr>manifest_name = ''t/a.yaml'', manifest_content = ''configmap: annotated'',
              manifest_head = example_head ''v1'' ''ConfigMap'' ''cm'' [(''owner'', ''team'')]\<rparr>]\<rparr>"
    using sort_document_without_hook_annotation_is_generic [OF u1 v1 m1, of empty_result]
      sort_document_without_hook_annotation_is_generic [OF u2 v2 m2, of empty_result]
    by (simp add: example_file_def empty_result_def)
  from ab c show ?thesis by blast
qed

lemma sort_loop_classify:
  "sort_loop env mf es res =
   classify_documents env (mf_apis mf) (map (\<lambda>km. (mf_path mf, snd km)) es) res"
  by (induction es arbitrary: res) (simp_all split: sum.splits)

lemma classify_documents_append:
  "classify_documents env apis (xs @ ys) res =
     (case classify_documents env apis xs res of
        (r, Some e) \<Rightarrow> (r, Some e)
      | (r, None) \<Rightarrow> classify_documents env apis ys r)"
  by (induction xs arbitrary: res) (simp_all split: sum.splits)

lemma sortManifests_loop_classify:
  "sortManifests_loop env apis files res = classify_documents env apis (documents env files) res"
proof (induction files arbitrary: res)
  case Nil
  then show ?case by (simp add: documents_def)
next
  case (Cons fc files)
  show ?case
  proof (cases "prefix ''_'' (path_Base (fst fc)) \<or> length (strings_TrimSpace env (snd fc)) = 0")
    case True
    then have "documents env (fc # files) = documents env files"
      by (auto simp: documents_def)
    with True Cons.IH show ?thesis by auto
  next
    case False
    then have d: "documents env (fc # files) =
        map (\<lambda>km. (fst fc, snd km)) (SplitManifests env (snd fc)) @ documents env files"
      by (simp add: documents_def)
    show ?thesis
      using False
      by (simp add: d classify_documents_append manifestFile_sort_def sort_loop_classify Cons.IH
          split: prod.splits option.splits)
  qed
qed

lemma sort_entry_error:
  "document_error env apis pd = Some e \<Longrightarrow> sort_entry env (fst pd) apis res (snd pd) = Inl e"
  by (auto simp: document_error_def sort_entry_def split: sum.splits if_splits)

lemma sort_entry_no_error:
  "document_error env apis pd = None \<Longrightarrow> \<exists>res'. sort_entry env (fst pd) apis res (snd pd) = Inr res'"
  by (auto simp: document_error_def sort_entry_def Let_def
      split: sum.splits if_splits option.splits prod.splits)

lemma classify_documents_no_error:
  "\<forall>d \<in> set ds. document_error env apis d = None \<Longrightarrow>
   snd (classify_documents env apis ds res) = None"
proof (induction ds arbitrary: res)
  case Nil
  then show ?case by simp
next
  case (Cons d ds)
  then obtain res' where "sort_entry env (fst d) apis res (snd d) = Inr res'"
    using sort_entry_no_error [of env apis d res] by auto
  with Cons show ?case by simp
qed

text \<open>
  C6. When some document of the file set has a header that does not parse, or a
  non-empty API version outside the capability set, the classification returns an
  error. The error is that of the first such document in processing order: a parse
  error carrying the path of its file, or an API version error carrying the version
  and the path of its file. The hooks and generic manifests returned with it are those
  of the documents before that one, so the offending document is in neither list.
\<close>

theorem sortManifests_fails_on_bad_document:
  assumes "pd \<in> set (documents env files)" and "document_error env apis pd \<noteq> None"
  shows "\<exists>before bad after e r.
           documents env files = before @ bad # after \<and>
           (\<forall>d \<in> set before. document_error env apis d = None) \<and>
           ((\<exists>msg. yaml_Unmarshal env (snd bad) = Inl msg \<and> e = YAMLParseError (fst bad) msg) \<or>
            (\<exists>entry. yaml_Unmarshal env (snd bad) = Inr entry \<and> Version entry \<noteq> [] \<and>
               Version entry \<notin> apis \<and> e = ApiVersionNotAvailable (Version entry) (fst bad))) \<and>
           classify_documents env apis before \<lparr>result_hooks = [], result_generic = []\<rparr> = (r, None) \<and>
           sortManifests env files apis order = (result_hooks r, result_generic r, Some e)"
proof -
  let ?P = "\<lambda>d. document_error env apis d \<noteq> None"
  let ?empty = "\<lparr>result_hooks = [], result_generic = []\<rparr>"
  from assms have "\<exists>d \<in> set (documents env files). ?P d" by blast
  then have "\<exists>before bad after. documents env files = before @ bad # after \<and> ?P bad \<and>
      (\<forall>d \<in> set before. \<not> ?P d)"
    by (rule split_list_first_prop)
  then obtain before bad after where split: "documents env files = before @ bad # after"
    and bad: "?P bad" and good: "\<forall>d \<in> set before. \<not> ?P d"
    by blast
  from bad obtain e where e: "document_error env apis bad = Some e" by auto
  from good have good': "\<forall>d \<in> set before. document_error env apis d = None" by simp
  obtain r where r: "classify_documents env apis before ?empty = (r, None)"
    using classify_documents_no_error [OF good', of ?empty]
    by (metis prod.collapse)
  have "classify_documents env apis (documents env files) ?empty = (r, Some e)"
    using r sort_entry_error [OF e, of r]
    by (simp add: split classify_documents_append)
  then have res: "sortManifests env files apis order = (result_hooks r, result_generic r, Some e)"
    by (simp add: sortManifests_def sortManifests_loop_classify)
  from e have "(\<exists>msg. yaml_Unmarshal env (snd bad) = Inl msg \<and> e = YAMLParseError (fst bad) msg) \<or>
      (\<exists>entry. yaml_Unmarshal env (snd bad) = Inr entry \<and> Version entry \<noteq> [] \<and>
         Version entry \<notin> apis \<and> e = ApiVersionNotAvailable (Version entry) (fst bad))"
    by (auto simp: document_error_def split: sum.splits if_splits)
  with split good' r res show ?thesis by blast
qed

theorem sortManifests_fails_on_bad_document_witness:
  "(''c/templates/b.yaml'', ''deployment'') \<in> set (documents example_hooks_env
      [(''c/templates/_helpers.tpl'', ''junk''), (''c/templates/a.yaml'', ''configmap''),
       (''c/templates/b.yaml'', ''deployment''), (''c/templates/c.yaml'', ''junk'')]) \<and>
   document_error example_hooks_env {''v1'', ''batch/v1''} (''c/templates/b.yaml'', ''deployment'') =
     Some (ApiVersionNotAvailable ''apps/v9'' ''c/templates/b.yaml'') \<and>
   sortManifests example_hooks_env
      [(''c/templates/_helpers.tpl'', ''junk''), (''c/templates/a.yaml'', ''configmap''),
       (''c/templates/b.yaml'', ''deployment''), (''c/templates/c.yaml'', ''junk'')]
      {''v1'', ''batch/v1''} () =
     ([],
      [\<lparr>manifest_name = ''c/templates/a.yaml'', manifest_content = ''configmap'',
        manifest_head = \<lparr>Version = ''v1'', Kind = ''ConfigMap'', Metadata = None\<rparr>\<rparr>],
      Some (ApiVersionNotAvailable ''apps/v9'' ''c/templates/b.yaml''))"
proof -
  let ?files = "[(''c/templates/_helpers.tpl'', ''junk''), (''c/templates/a.yaml'', ''configmap''),
       (''c/templates/b.yaml'', ''deployment''), (''c/templates/c.yaml'', ''junk'')]"
  let ?apis = "{''v1'', ''batch/v1''}"
  let ?a = "(''c/templates/a.yaml'', ''configmap'')"
  let ?b = "(''c/templates/b.yaml'', ''deployment'')"
  let ?c = "(''c/templates/c.yaml'', ''junk'')"
  have docs: "documents example_hooks_env ?files = [?a, ?b, ?c]"
    by (simp add: documents_def example_hooks_env_def example_TrimSpace_def path_Base_def)
  have ea: "document_error example_hooks_env ?apis ?a = None"
    and eb: "document_error example_hooks_env ?apis ?b =
      Some (ApiVersionNotAvailable ''apps/v9'' ''c/templates/b.yaml'')"
    by (simp_all add: document_error_def example_hooks_env_def example_Unmarshal_def
        example_head_def)
  have mem: "?b \<in> set (documents example_hooks_env ?files)"
    unfolding docs by simp
  have bad: "document_error example_hooks_env ?apis ?b \<noteq> None"
    unfolding eb by simp
  from sortManifests_fails_on_bad_document [OF mem bad, of "()"]
  obtain before bad after e r where
    split: "documents example_hooks_env ?files = before @ bad # after"
    and good: "\<forall>d \<in> set before. document_error example_hooks_env ?apis d = None"
    and err: "(\<exists>msg. yaml_Unmarshal example_hooks_env (snd bad) = Inl msg \<and>
                e = YAMLParseError (fst bad) msg) \<or>
              (\<exists>entry. yaml_Unmarshal example_hooks_env (snd bad) = Inr entry \<and>
                Version entry \<noteq> [] \<and> Version entry \<notin> ?apis \<and>
                e = ApiVersionNotAvailable (Version entry) (fst bad))"
    and r: "classify_documents example_hooks_env ?apis before
              \<lparr>result_hooks = [], result_generic = []\<rparr> = (r, None)"
    and res: "sortManifests example_hooks_env ?files ?apis () =
              (result_hooks r, result_generic r, Some e)"
    by blast
  from split docs have "before @ bad # after = [?a, ?b, ?c]" by simp
  then consider "before = []" "bad = ?a" | "before = [?a]" "bad = ?b"
    | "before = [?a, ?b]" "bad = ?c"
    by (auto simp: append_eq_Cons_conv Cons_eq_append_conv)
  then have which: "before = [?a] \<and> bad = ?b"
  proof cases
    case 1
    with err show ?thesis
      by (auto simp: example_hooks_env_def example_Unmarshal_def)
  next
    case 2
    then show ?thesis by simp
  next
    case 3
    with good eb show ?thesis by simp
  qed
  with r have "r = \<lparr>result_hooks = [],
      result_generic = [\<lparr>manifest_name = ''c/templates/a.yaml'', manifest_content = ''configmap'',
        manifest_head = \<lparr>Version = ''v1'', Kind = ''ConfigMap'', Metadata = None\<rparr>\<rparr>]\<rparr>"
    by (simp add: sort_entry_def example_hooks_env_def example_Unmarshal_def hasAnyAnnotation_def)
  moreover from which err have "e = ApiVersionNotAvailable ''apps/v9'' ''c/templates/b.yaml''"
    by (auto simp: example_hooks_env_def example_Unmarshal_def example_head_def)
  ultimately show ?thesis using res mem eb by simp
qed

section \<open>Properties of the hook executor\<close>

lemma events_None_iff:
  "events hook = None \<longleftrightarrow>
   hook \<notin> {''pre-install'', ''post-install'', ''pre-delete'', ''post-delete'', ''pre-upgrade'',
            ''post-upgrade'', ''pre-rollback'', ''post-rollback'', ''release-test-success'',
            ''release-test-failure''}"
  by (simp add: events_def)

text \<open>
  C9. For an event name that is none of the ten recognized names, \<open>execHook\<close> returns
  the error for an unknown hook and the state it was given: no call of the cluster
  client is recorded, the cluster is as before, and every hook, with its last-run
  timestamp, is as before.
\<close>

theorem execHook_unknown_event_name:
  assumes "hook \<notin> {''pre-install'', ''post-install'', ''pre-delete'', ''post-delete'',
                    ''pre-upgrade'', ''post-upgrade'', ''pre-rollback'', ''post-rollback'',
                    ''release-test-success'', ''release-test-failure''}"
  shows "execHook env st name namespace hook timeout = (st, Some (UnknownHook hook)) \<and>
         st_calls (fst (execHook env st name namespace hook timeout)) = st_calls st \<and>
         map Hook_LastRun (st_hooks (fst (execHook env st name namespace hook timeout))) =
           map Hook_LastRun (st_hooks st)"
proof -
  have "events hook = None"
    unfolding events_None_iff by (rule assms)
  then show ?thesis by (simp add: execHook_def)
qed

theorem execHook_unknown_event_name_witness:
  "execHook example_kube_env example_exec_state ''rel'' ''default'' ''Pre-Install'' 300 =
     (example_exec_state, Some (UnknownHook ''Pre-Install''))"
proof -
  have "''Pre-Install'' \<notin> {''pre-install'', ''post-install'', ''pre-delete'', ''post-delete'',
                    ''pre-upgrade'', ''post-upgrade'', ''pre-rollback'', ''post-rollback'',
                    ''release-test-success'', ''release-test-failure''}"
    by simp
  from execHook_unknown_event_name [OF this] show ?thesis by blast
qed

text \<open>With a recognized name the same state is transformed: the hook is created, awaited and stamped.\<close>

lemma execHook_example_run:
  "execHook example_kube_env example_exec_state ''rel'' ''default'' ''pre-install'' 300 =
     (\<lparr>st_hooks = [\<lparr>Hook_Name = ''init'', Hook_Kind = ''Job'', Hook_Path = ''t/a.yaml'',
                   Hook_Manifest = ''job'', Hook_Events = [Hook_PRE_INSTALL],
                   Hook_LastRun = Some 2, Hook_Weight = 0\<rparr>],
       st_cluster = 2,
       st_calls = [Create_call ''default'' ''job'' 300, WatchUntilReady_call ''default'' ''job'' 300]\<rparr>,
      None)"
  by (simp add: execHook_def events_def executingHooks_def example_kube_env_def
      example_exec_state_def Let_def numeral_2_eq_2)

end
